theory Spec2Isabelle
  imports Complex_Main "HOL-Library.Word" "HOL-Library.Sublist"
begin

section \<open>Canvas placement of the rendering backends\<close>

text \<open>
  The two rendering backends (\<^verbatim>\<open>graphics/_2d.ts\<close> and the WebGL backend) keep four
  closure variables \<^verbatim>\<open>containerWidth\<close>, \<^verbatim>\<open>containerHeight\<close>, \<^verbatim>\<open>frameWidth\<close>,
  \<^verbatim>\<open>frameHeight\<close> and place the canvas with a local procedure \<^verbatim>\<open>onResize\<close>.
  Numbers are modelled as rationals. A division whose divisor is zero leaves the
  rationals (JavaScript continues with \<^verbatim>\<open>Infinity\<close> or \<^verbatim>\<open>NaN\<close>); the model returns
  \<open>None\<close> there instead of HOL's \<open>x / 0 = 0\<close>.
\<close>

definition num_div :: "rat \<Rightarrow> rat \<Rightarrow> rat option" where
  "num_div a b = (if b = 0 then None else Some (a / b))"

text \<open>The style properties that \<^verbatim>\<open>onResize\<close> assigns, in pixels.\<close>

record style =
  style_position :: string
  style_top :: rat
  style_left :: rat
  style_width :: rat
  style_height :: rat

text \<open>\<^verbatim>\<open>onResize\<close> of \<^verbatim>\<open>_2d\<close> (lines 16 to 32 of \<^verbatim>\<open>graphics/_2d.ts\<close>).\<close>

definition onResize_2d :: "rat \<Rightarrow> rat \<Rightarrow> rat \<Rightarrow> rat \<Rightarrow> style option" where
  "onResize_2d containerWidth containerHeight frameWidth frameHeight =
     (case num_div frameWidth frameHeight of
        None \<Rightarrow> None
      | Some aspect \<Rightarrow>
          (case num_div containerWidth aspect of
             None \<Rightarrow> None
           | Some height0 \<Rightarrow>
               let width0 = containerWidth;
                   height = (if height0 > containerHeight then containerHeight else height0);
                   width = (if height0 > containerHeight then containerHeight * aspect else width0)
               in Some \<lparr> style_position = ''relative'',
                         style_top = (containerHeight - height) / 2,
                         style_left = (containerWidth - width) / 2,
                         style_width = width,
                         style_height = height \<rparr>))"

text \<open>\<^verbatim>\<open>onResize\<close> of \<^verbatim>\<open>webGl\<close> (lines 62 to 78 of the WebGL backend).\<close>

definition onResize_webGl :: "rat \<Rightarrow> rat \<Rightarrow> rat \<Rightarrow> rat \<Rightarrow> style option" where
  "onResize_webGl containerWidth containerHeight frameWidth frameHeight =
     (case num_div frameWidth frameHeight of
        None \<Rightarrow> None
      | Some aspect \<Rightarrow>
          (case num_div containerWidth aspect of
             None \<Rightarrow> None
           | Some height0 \<Rightarrow>
               let width0 = containerWidth;
                   height = (if height0 > containerHeight then containerHeight else height0);
                   width = (if height0 > containerHeight then containerHeight * aspect else width0)
               in Some \<lparr> style_position = ''relative'',
                         style_top = (containerHeight - height) / 2,
                         style_left = (containerWidth - width) / 2,
                         style_width = width,
                         style_height = height \<rparr>))"

text \<open>
  The quotient \<open>width / height\<close> of a displayed size, undefined when the height is zero.
\<close>

definition displayed_ratio :: "style \<Rightarrow> rat option" where
  "displayed_ratio p = num_div (style_width p) (style_height p)"

section \<open>The collaborators: command interface, canvas and layers\<close>

datatype error = Error string | TypeError | NotFoundError

text \<open>
  The emulator's command interface is external. It is modelled by the frame size it
  reports and by the log of the calls made on it: subscriptions to its events (tagged
  with the backend and the closure instance that subscribes) and input commands.
\<close>

datatype backend = Canvas2d | WebGl

datatype ci_call =
    OnFrameSize backend nat
  | OnFrame backend nat
  | OnExit backend nat
  | SendKeyEvent int bool
  | SendMouseMotion rat rat

record ci =
  ci_width :: nat
  ci_height :: nat
  ci_calls :: "ci_call list"

type_synonym byte = "8 word"

text \<open>
  The WebGL context: whether the two shaders compile and the program links, and the
  calls the frame handlers make on it.
\<close>

datatype gl_call =
    Viewport nat nat nat nat
  | TexImage2D nat nat "byte list"
  | DrawArrays nat nat

record gl =
  vertex_shader_compiles :: bool
  fragment_shader_compiles :: bool
  program_links :: bool
  gl_calls :: "gl_call list"

text \<open>
  The canvas element: its pixel size, the style set by \<^verbatim>\<open>onResize\<close> (\<open>None\<close> when the
  values are not rational numbers), the contexts \<^verbatim>\<open>getContext\<close> can give, and the
  \<^verbatim>\<open>putImageData\<close> calls received by the 2D context (image data, width, height, x, y).
\<close>

record canvas =
  canvas_width :: nat
  canvas_height :: nat
  canvas_style :: "style option"
  context_2d :: bool
  context_webgl :: "gl option"
  putImageData_calls :: "(byte list \<times> nat \<times> nat \<times> int \<times> int) list"

text \<open>
  A closure registered as a resize listener, identified by the instance that created it.
\<close>

datatype listener = OnResizeLayer nat | ControlsOnResize nat

text \<open>
  Closures passed to \<^verbatim>\<open>createButton\<close> as \<^verbatim>\<open>onDown\<close> and \<^verbatim>\<open>onUp\<close>, with the
  values they capture.
\<close>

datatype handler =
    H_sendKeyEvent int bool
  | H_sendMouseMotion rat rat
  | H_setPointerButton int
  | H_toggleKeyboard
  | H_setLayersConfig string

text \<open>
  Modelled from the spec: the element returned by \<^verbatim>\<open>createButton\<close>
  (\<^verbatim>\<open>controls/button.ts\<close> is not among the sources). The overlay buttons translate taps
  into the events their handlers send: the element is a new DOM node that carries the
  symbol, the \<^verbatim>\<open>onDown\<close> and \<^verbatim>\<open>onUp\<close> handlers and the size it was created with, and
  the style the factory assigns.
\<close>

record button_node =
  node :: nat
  node_symbol :: string
  onDown :: "handler option"
  onUp :: "handler option"
  node_size :: rat
  node_position :: string
  node_left :: rat
  node_top :: rat

text \<open>
  The fields of \<^verbatim>\<open>Layers\<close> that the sources read and write, with the children of the
  overlay element, the registered listeners and the number of \<^verbatim>\<open>toggleKeyboard\<close> calls.
\<close>

record layers =
  layers_width :: rat
  layers_height :: rat
  pointerButton :: int
  canvas :: canvas
  mouseOverlay :: "button_node list"
  onResize_listeners :: "listener list"
  onKeyboardVisibility_listeners :: "nat list"
  toggleKeyboard_calls :: nat

text \<open>
  Modelled from the spec: \<^verbatim>\<open>Layers.addOnResize\<close> and \<^verbatim>\<open>Layers.removeOnResize\<close>
  (\<^verbatim>\<open>dom/layers.ts\<close> is not among the sources). A backend adds its resize listener to
  layers and removes it again on exit: adding appends the listener, removing deletes it.
\<close>

definition addOnResize :: "listener \<Rightarrow> layers \<Rightarrow> layers" where
  "addOnResize l ls = ls \<lparr> onResize_listeners := onResize_listeners ls @ [l] \<rparr>"

definition removeOnResize :: "listener \<Rightarrow> layers \<Rightarrow> layers" where
  "removeOnResize l ls = ls \<lparr> onResize_listeners := filter (\<lambda>n. n \<noteq> l) (onResize_listeners ls) \<rparr>"

section \<open>The 2D backend\<close>

text \<open>The closure variables of \<^verbatim>\<open>_2d\<close>; \<^verbatim>\<open>webGl\<close> has the first four.\<close>

record vars =
  v_containerWidth :: rat
  v_containerHeight :: rat
  v_frameWidth :: nat
  v_frameHeight :: nat

record vars_2d = vars +
  v_rgba :: "byte list"

definition run_onResize_2d :: "vars_2d \<Rightarrow> canvas \<Rightarrow> canvas" where
  "run_onResize_2d v cv =
     cv \<lparr> canvas_style :=
            onResize_2d (v_containerWidth v) (v_containerHeight v)
              (of_nat (v_frameWidth v)) (of_nat (v_frameHeight v)) \<rparr>"

definition onResizeLayer_2d :: "rat \<Rightarrow> rat \<Rightarrow> vars_2d \<times> canvas \<Rightarrow> vars_2d \<times> canvas" where
  "onResizeLayer_2d w h s =
     (let v = (fst s) \<lparr> v_containerWidth := w, v_containerHeight := h \<rparr>
      in (v, run_onResize_2d v (snd s)))"

definition onResizeFrame_2d :: "nat \<Rightarrow> nat \<Rightarrow> vars_2d \<times> canvas \<Rightarrow> vars_2d \<times> canvas" where
  "onResizeFrame_2d w h s =
     (let v = (fst s) \<lparr> v_frameWidth := w, v_frameHeight := h \<rparr>;
          cv = (snd s) \<lparr> canvas_width := w, canvas_height := h \<rparr>;
          v = v \<lparr> v_rgba := replicate (w * h * 4) 0 \<rparr>
      in (v, run_onResize_2d v cv))"

text \<open>
  Reading \<^verbatim>\<open>rgb[i]\<close>: past the end of the buffer the read is \<^verbatim>\<open>undefined\<close>
  (\<open>None\<close>). Stored into a \<^verbatim>\<open>Uint8ClampedArray\<close>, \<^verbatim>\<open>undefined\<close> becomes 0.
\<close>

definition rgb_read :: "byte list \<Rightarrow> nat \<Rightarrow> byte option" where
  "rgb_read rgb i = (if i < length rgb then Some (rgb ! i) else None)"

definition rgb_at :: "byte list \<Rightarrow> nat \<Rightarrow> byte" where
  "rgb_at rgb i = (case rgb_read rgb i of Some b \<Rightarrow> b | None \<Rightarrow> 0)"

text \<open>The \<^verbatim>\<open>while\<close> loop of the frame handler (lines 55 to 60).\<close>

function onFrame_loop :: "byte list \<Rightarrow> nat \<Rightarrow> nat \<Rightarrow> byte list \<Rightarrow> byte list" where
  "onFrame_loop rgb rgbOffset rgbaOffset rgba =
     (if rgbaOffset < length rgba
      then onFrame_loop rgb (rgbOffset + 3) (rgbaOffset + 4)
             (rgba[rgbaOffset := rgb_at rgb rgbOffset,
                   rgbaOffset + 1 := rgb_at rgb (rgbOffset + 1),
                   rgbaOffset + 2 := rgb_at rgb (rgbOffset + 2),
                   rgbaOffset + 3 := 255])
      else rgba)"
  by pat_completeness auto
termination
  by (relation "measure (\<lambda>(rgb, rgbOffset, rgbaOffset, rgba). length rgba - rgbaOffset)") auto

declare onFrame_loop.simps [simp del]

definition onFrame_2d :: "byte list \<Rightarrow> vars_2d \<times> canvas \<Rightarrow> vars_2d \<times> canvas" where
  "onFrame_2d rgb s =
     (let r = onFrame_loop rgb 0 0 (v_rgba (fst s))
      in ((fst s) \<lparr> v_rgba := r \<rparr>,
          (snd s) \<lparr> putImageData_calls := putImageData_calls (snd s) @
                      [(r, v_frameWidth (fst s), v_frameHeight (fst s), 0, 0)] \<rparr>))"

text \<open>The handler subscribed to the exit event by the instance \<open>self\<close>.\<close>

definition onExit_2d :: "nat \<Rightarrow> layers \<Rightarrow> layers" where
  "onExit_2d self ls = removeOnResize (OnResizeLayer self) ls"

text \<open>
  \<^verbatim>\<open>_2d(layers, ci)\<close>; \<open>self\<close> identifies the closures this call creates.
\<close>

definition graphics_2d :: "nat \<Rightarrow> layers \<Rightarrow> ci \<Rightarrow> error + (layers \<times> ci \<times> vars_2d)" where
  "graphics_2d self ls c =
     (if \<not> context_2d (canvas ls)
      then Inl (Error ''Unable to create 2d context on given canvas'')
      else
        let v0 = \<lparr> v_containerWidth = layers_width ls, v_containerHeight = layers_height ls,
                   v_frameWidth = 0, v_frameHeight = 0, v_rgba = [] \<rparr>;
            ls1 = addOnResize (OnResizeLayer self) ls;
            c1 = c \<lparr> ci_calls := ci_calls c @ [OnFrameSize Canvas2d self, OnFrame Canvas2d self] \<rparr>;
            s = onResizeFrame_2d (ci_width c1) (ci_height c1) (v0, canvas ls1);
            c2 = c1 \<lparr> ci_calls := ci_calls c1 @ [OnExit Canvas2d self] \<rparr>
        in Inr (ls1 \<lparr> canvas := snd s \<rparr>, c2, fst s))"

section \<open>The WebGL backend\<close>

definition run_onResize_webGl :: "vars \<Rightarrow> canvas \<Rightarrow> canvas" where
  "run_onResize_webGl v cv =
     cv \<lparr> canvas_style :=
            onResize_webGl (v_containerWidth v) (v_containerHeight v)
              (of_nat (v_frameWidth v)) (of_nat (v_frameHeight v)) \<rparr>"

definition gl_log :: "gl_call list \<Rightarrow> canvas \<Rightarrow> canvas" where
  "gl_log cs cv =
     cv \<lparr> context_webgl := map_option (\<lambda>g. g \<lparr> gl_calls := gl_calls g @ cs \<rparr>) (context_webgl cv) \<rparr>"

definition onResizeLayer_webGl :: "rat \<Rightarrow> rat \<Rightarrow> vars \<times> canvas \<Rightarrow> vars \<times> canvas" where
  "onResizeLayer_webGl w h s =
     (let v = (fst s) \<lparr> v_containerWidth := w, v_containerHeight := h \<rparr>
      in (v, run_onResize_webGl v (snd s)))"

definition onResizeFrame_webGl :: "nat \<Rightarrow> nat \<Rightarrow> vars \<times> canvas \<Rightarrow> vars \<times> canvas" where
  "onResizeFrame_webGl w h s =
     (let v = (fst s) \<lparr> v_frameWidth := w, v_frameHeight := h \<rparr>;
          cv = (snd s) \<lparr> canvas_width := w, canvas_height := h \<rparr>;
          cv = gl_log [Viewport 0 0 w h] cv
      in (v, run_onResize_webGl v cv))"

definition onFrame_webGl :: "byte list \<Rightarrow> vars \<times> canvas \<Rightarrow> vars \<times> canvas" where
  "onFrame_webGl rgb s =
     (fst s, gl_log [TexImage2D (v_frameWidth (fst s)) (v_frameHeight (fst s)) rgb,
                     DrawArrays 0 6] (snd s))"

definition onExit_webGl :: "nat \<Rightarrow> layers \<Rightarrow> layers" where
  "onExit_webGl self ls = removeOnResize (OnResizeLayer self) ls"

text \<open>\<^verbatim>\<open>loadShader\<close> and \<^verbatim>\<open>initShaderProgram\<close>: the errors they throw.\<close>

definition initShaderProgram :: "gl \<Rightarrow> error + unit" where
  "initShaderProgram g =
     (if \<not> vertex_shader_compiles g then Inl (Error ''An error occurred compiling the shaders'')
      else if \<not> fragment_shader_compiles g then Inl (Error ''An error occurred compiling the shaders'')
      else if \<not> program_links g then Inl (Error ''Unable to initialize the shader program'')
      else Inr ())"

text \<open>
  \<^verbatim>\<open>webGl(layers, ci)\<close>. The set-up of buffers and of the texture is not logged.
\<close>

definition graphics_webGl :: "nat \<Rightarrow> layers \<Rightarrow> ci \<Rightarrow> error + (layers \<times> ci \<times> vars)" where
  "graphics_webGl self ls c =
     (case context_webgl (canvas ls) of
        None \<Rightarrow> Inl (Error ''Unable to create webgl context on given canvas'')
      | Some g \<Rightarrow>
          (case initShaderProgram g of
             Inl e \<Rightarrow> Inl e
           | Inr _ \<Rightarrow>
               let v0 = \<lparr> v_containerWidth = layers_width ls, v_containerHeight = layers_height ls,
                          v_frameWidth = 0, v_frameHeight = 0 \<rparr>;
                   ls1 = addOnResize (OnResizeLayer self) ls;
                   c1 = c \<lparr> ci_calls := ci_calls c @ [OnFrameSize WebGl self, OnFrame WebGl self] \<rparr>;
                   s = onResizeFrame_webGl (ci_width c1) (ci_height c1) (v0, canvas ls1);
                   c2 = c1 \<lparr> ci_calls := ci_calls c1 @ [OnExit WebGl self] \<rparr>
               in Inr (ls1 \<lparr> canvas := snd s \<rparr>, c2, fst s)))"

text \<open>
  The buffer \<^verbatim>\<open>rgba\<close> has four bytes for each pixel of the current frame size. The
  frame-size handler establishes this and every handler keeps it.
\<close>

definition inv_2d :: "vars_2d \<Rightarrow> bool" where
  "inv_2d v = (length (v_rgba v) = v_frameWidth v * v_frameHeight v * 4)"

section \<open>Layer controls\<close>

text \<open>
  The configuration types of \<^verbatim>\<open>controls/layers-config.ts\<close> and the grid configuration of
  \<^verbatim>\<open>controls/grid.ts\<close> are not among the sources; the records hold the fields that
  \<^verbatim>\<open>controls/layers-control.ts\<close> reads. A control carries the fields of every control
  type; a factory only reads those of its own type.
\<close>

record control =
  type :: string
  row :: nat
  column :: nat
  symbol :: string
  mapTo :: int
  layerName :: string
  direction :: string
  button :: int

record layerConfig =
  title :: string
  grid :: string
  controls :: "control list"

record layersConfig =
  config_layers :: "layerConfig list"

record cell =
  centerX :: rat
  centerY :: rat

record gridConfig =
  cells :: "cell list list"
  columnWidth :: rat
  rowHeight :: rat
  grid_width :: rat

text \<open>
  The values pushed on \<^verbatim>\<open>unbindControls\<close>: the closures returned by the factories,
  the function returned by \<^verbatim>\<open>options\<close>, and values that are not functions.
\<close>

datatype unbind =
    RemoveButton nat
  | RemoveKeyboardButton nat
  | OptionsUnbind nat
  | NotAFunction

text \<open>
  The state the controls act on: layers, the command interface, the calls made on the
  \<^verbatim>\<open>dosInstance\<close> and on \<^verbatim>\<open>options\<close>, the console, the list \<^verbatim>\<open>unbindControls\<close> of
  \<^verbatim>\<open>initLayerConfig\<close>, and the identity of the next DOM node to be created.
\<close>

record world =
  w_layers :: layers
  w_ci :: ci
  setLayersConfig_calls :: "string list"
  options_mounted :: "(nat \<times> rat \<times> rat \<times> rat) list"
  keyboard_bound :: bool
  mouse_bound :: bool
  console :: "string list"
  unbindControls :: "unbind list"
  next_node :: nat

text \<open>Running a handler closure.\<close>

fun run_handler :: "handler \<Rightarrow> world \<Rightarrow> world" where
  "run_handler (H_sendKeyEvent key pressed) w =
     w \<lparr> w_ci := (w_ci w) \<lparr> ci_calls := ci_calls (w_ci w) @ [SendKeyEvent key pressed] \<rparr> \<rparr>"
| "run_handler (H_sendMouseMotion x y) w =
     w \<lparr> w_ci := (w_ci w) \<lparr> ci_calls := ci_calls (w_ci w) @ [SendMouseMotion x y] \<rparr> \<rparr>"
| "run_handler (H_setPointerButton b) w =
     w \<lparr> w_layers := (w_layers w) \<lparr> pointerButton := b \<rparr> \<rparr>"
| "run_handler H_toggleKeyboard w =
     w \<lparr> w_layers := (w_layers w) \<lparr> toggleKeyboard_calls := Suc (toggleKeyboard_calls (w_layers w)) \<rparr> \<rparr>"
| "run_handler (H_setLayersConfig name) w =
     w \<lparr> setLayersConfig_calls := setLayersConfig_calls w @ [name] \<rparr>"

text \<open>
  \<^verbatim>\<open>const { centerX, centerY } = cells[row][column]\<close>: a row or a column outside the
  grid makes the read \<^verbatim>\<open>undefined\<close> and the access throws a \<^verbatim>\<open>TypeError\<close>.
\<close>

definition cell_at :: "gridConfig \<Rightarrow> nat \<Rightarrow> nat \<Rightarrow> error + cell" where
  "cell_at gridConfig r c =
     (if r < length (cells gridConfig)
      then (if c < length (cells gridConfig ! r)
            then Inr (cells gridConfig ! r ! c)
            else Inl TypeError)
      else Inl TypeError)"

text \<open>
  Modelled from the spec: \<^verbatim>\<open>createButton(symbol, handlers, size)\<close> of
  \<^verbatim>\<open>controls/button.ts\<close>, which is not among the sources. It returns a new node holding
  its three arguments.
\<close>

definition createButton ::
  "string \<Rightarrow> handler option \<Rightarrow> handler option \<Rightarrow> rat \<Rightarrow> world \<Rightarrow> button_node \<times> world" where
  "createButton label down up sz w =
     (\<lparr> node = next_node w, node_symbol = label, onDown = down, onUp = up, node_size = sz,
        node_position = [], node_left = 0, node_top = 0 \<rparr>,
      w \<lparr> next_node := Suc (next_node w) \<rparr>)"

text \<open>
  The three style assignments and \<^verbatim>\<open>layers.mouseOverlay.appendChild(button)\<close> that end
  every button factory.
\<close>

definition place_button :: "button_node \<Rightarrow> cell \<Rightarrow> gridConfig \<Rightarrow> world \<Rightarrow> world" where
  "place_button b cl gridConfig w =
     (let b = b \<lparr> node_position := ''absolute'',
                  node_left := centerX cl - columnWidth gridConfig / 2,
                  node_top := centerY cl - rowHeight gridConfig / 2 \<rparr>
      in w \<lparr> w_layers := (w_layers w) \<lparr> mouseOverlay := mouseOverlay (w_layers w) @ [b] \<rparr> \<rparr>)"

type_synonym factory = "control \<Rightarrow> gridConfig \<Rightarrow> world \<Rightarrow> error + (unbind \<times> world)"

definition createKeyControl :: factory where
  "createKeyControl keyControl gridConfig w =
     (case cell_at gridConfig (row keyControl) (column keyControl) of
        Inl e \<Rightarrow> Inl e
      | Inr cl \<Rightarrow>
          let (b, w) = createButton (symbol keyControl)
                         (Some (H_sendKeyEvent (mapTo keyControl) True))
                         (Some (H_sendKeyEvent (mapTo keyControl) False))
                         (columnWidth gridConfig) w
          in Inr (RemoveButton (node b), place_button b cl gridConfig w))"

text \<open>
  \<^verbatim>\<open>options\<close> of \<^verbatim>\<open>controls/options.ts\<close> is not among the sources: the call is recorded
  with its size and position, and the function it returns is \<open>OptionsUnbind\<close>.
\<close>

definition createOptionsControl :: factory where
  "createOptionsControl keyControl gridConfig w =
     (case cell_at gridConfig (row keyControl) (column keyControl) of
        Inl e \<Rightarrow> Inl e
      | Inr cl \<Rightarrow>
          let top = centerY cl - rowHeight gridConfig / 2;
              left = centerX cl - columnWidth gridConfig / 2;
              right = grid_width gridConfig - left - columnWidth gridConfig
          in Inr (OptionsUnbind (next_node w),
                  w \<lparr> options_mounted := options_mounted w @
                          [(next_node w, columnWidth gridConfig, top, right)],
                      next_node := Suc (next_node w) \<rparr>))"

text \<open>
  \<^verbatim>\<open>layers.setOnKeyboardVisibility\<close> is recorded as a listener named after the button.
\<close>

definition createKeyboardControl :: factory where
  "createKeyboardControl keyboardControl gridConfig w =
     (case cell_at gridConfig (row keyboardControl) (column keyboardControl) of
        Inl e \<Rightarrow> Inl e
      | Inr cl \<Rightarrow>
          let (b, w) = createButton ''keyboard'' None (Some H_toggleKeyboard)
                         (columnWidth gridConfig) w;
              w = w \<lparr> w_layers := (w_layers w) \<lparr> onKeyboardVisibility_listeners :=
                         onKeyboardVisibility_listeners (w_layers w) @ [node b] \<rparr> \<rparr>
          in Inr (RemoveKeyboardButton (node b), place_button b cl gridConfig w))"

definition createSwitchControl :: factory where
  "createSwitchControl switchControl gridConfig w =
     (case cell_at gridConfig (row switchControl) (column switchControl) of
        Inl e \<Rightarrow> Inl e
      | Inr cl \<Rightarrow>
          let (b, w) = createButton (symbol switchControl) None
                         (Some (H_setLayersConfig (layerName switchControl)))
                         (columnWidth gridConfig) w
          in Inr (RemoveButton (node b), place_button b cl gridConfig w))"

text \<open>
  \<^verbatim>\<open>String.prototype.indexOf\<close>: the index of the first occurrence of the pattern, or
  \<open>-1\<close>.
\<close>

fun indexOf_from :: "nat \<Rightarrow> string \<Rightarrow> string \<Rightarrow> int" where
  "indexOf_from i [] pat = (if pat = [] then int i else - 1)"
| "indexOf_from i (c # cs) pat =
     (if prefix pat (c # cs) then int i else indexOf_from (Suc i) cs pat)"

definition indexOf :: "string \<Rightarrow> string \<Rightarrow> int" where
  "indexOf s pat = indexOf_from 0 s pat"

text \<open>The pointer position computed by \<^verbatim>\<open>createScreenMoveControl\<close> (lines 192 to 209).\<close>

definition screenMove_mY :: "string \<Rightarrow> rat" where
  "screenMove_mY dir =
     (let mY = 1 / 2;
          mY = (if indexOf dir ''up'' \<ge> 0 then 0 else mY);
          mY = (if indexOf dir ''down'' \<ge> 0 then 1 else mY)
      in mY)"

definition screenMove_mX :: "string \<Rightarrow> rat" where
  "screenMove_mX dir =
     (let mX = 1 / 2;
          mX = (if indexOf dir ''left'' \<ge> 0 then 0 else mX);
          mX = (if indexOf dir ''right'' \<ge> 0 then 1 else mX)
      in mX)"

definition createScreenMoveControl :: factory where
  "createScreenMoveControl screenMoveControl gridConfig w =
     (case cell_at gridConfig (row screenMoveControl) (column screenMoveControl) of
        Inl e \<Rightarrow> Inl e
      | Inr cl \<Rightarrow>
          let mY = screenMove_mY (direction screenMoveControl);
              mX = screenMove_mX (direction screenMoveControl);
              (b, w) = createButton (symbol screenMoveControl)
                         (Some (H_sendMouseMotion mX mY))
                         (Some (H_sendMouseMotion (1 / 2) (1 / 2)))
                         (columnWidth gridConfig) w
          in Inr (RemoveButton (node b), place_button b cl gridConfig w))"

definition createPointerButtonControl :: factory where
  "createPointerButtonControl pointerButtonControl gridConfig w =
     (case cell_at gridConfig (row pointerButtonControl) (column pointerButtonControl) of
        Inl e \<Rightarrow> Inl e
      | Inr cl \<Rightarrow>
          let (b, w) = createButton (symbol pointerButtonControl)
                         (Some (H_setPointerButton (button pointerButtonControl)))
                         (Some (H_setPointerButton 0))
                         (columnWidth gridConfig) w
          in Inr (RemoveButton (node b), place_button b cl gridConfig w))"

section \<open>The factory table and the resize handler of a layer\<close>

definition factoryMapping :: "(string \<times> factory) list" where
  "factoryMapping =
     [(''Key'', createKeyControl),
      (''Options'', createOptionsControl),
      (''Keyboard'', createKeyboardControl),
      (''Switch'', createSwitchControl),
      (''ScreenMove'', createScreenMoveControl),
      (''PointerButton'', createPointerButtonControl)]"

text \<open>
  \<^verbatim>\<open>factoryMapping\<close> is an object literal, so \<^verbatim>\<open>factoryMapping[next.type]\<close> also finds
  the properties that every object inherits from \<^verbatim>\<open>Object.prototype\<close>; only a name
  that is neither an own key nor an inherited property reads as \<^verbatim>\<open>undefined\<close>.
\<close>

definition objectPrototype_properties :: "string list" where
  "objectPrototype_properties =
     [''constructor'', ''__defineGetter__'', ''__defineSetter__'', ''hasOwnProperty'',
      ''__lookupGetter__'', ''__lookupSetter__'', ''isPrototypeOf'',
      ''propertyIsEnumerable'', ''toString'', ''valueOf'', ''__proto__'',
      ''toLocaleString'']"

datatype property = Own factory | Inherited string | Undefined

definition get_factory :: "string \<Rightarrow> property" where
  "get_factory t =
     (case map_of factoryMapping t of
        Some f \<Rightarrow> Own f
      | None \<Rightarrow> (if t \<in> set objectPrototype_properties then Inherited t else Undefined))"

text \<open>
  An inherited property called as \<^verbatim>\<open>factory(next, layers, ci, gridConfig, dosInstance)\<close>
  in module code, where \<^verbatim>\<open>this\<close> is \<^verbatim>\<open>undefined\<close>: \<^verbatim>\<open>constructor\<close> returns its
  argument and \<^verbatim>\<open>toString\<close> returns a string, neither of which is a function; the
  others throw a \<^verbatim>\<open>TypeError\<close>.
\<close>

definition call_inherited :: "string \<Rightarrow> error + unbind" where
  "call_inherited name =
     (if name = ''constructor'' \<or> name = ''toString'' then Inr NotAFunction else Inl TypeError)"

definition not_defined_message :: "string \<Rightarrow> string" where
  "not_defined_message t =
     ''Factory for control '' @ [CHR 0x27] @ t @ [CHR 0x27] @ '' is not defined''"

text \<open>
  \<^verbatim>\<open>removeChild\<close> of the overlay element: a node that is not a child raises
  \<^verbatim>\<open>NotFoundError\<close>.
\<close>

definition removeChild :: "nat \<Rightarrow> layers \<Rightarrow> error + layers" where
  "removeChild n ls =
     (if n \<in> set (map node (mouseOverlay ls))
      then Inr (ls \<lparr> mouseOverlay := filter (\<lambda>b. node b \<noteq> n) (mouseOverlay ls) \<rparr>)
      else Inl NotFoundError)"

fun run_unbind :: "unbind \<Rightarrow> world \<Rightarrow> error + world" where
  "run_unbind (RemoveButton n) w =
     (case removeChild n (w_layers w) of
        Inl e \<Rightarrow> Inl e
      | Inr ls \<Rightarrow> Inr (w \<lparr> w_layers := ls \<rparr>))"
| "run_unbind (RemoveKeyboardButton n) w =
     (case removeChild n (w_layers w) of
        Inl e \<Rightarrow> Inl e
      | Inr ls \<Rightarrow>
          Inr (w \<lparr> w_layers := ls \<lparr> onKeyboardVisibility_listeners :=
                       filter (\<lambda>k. k \<noteq> n) (onKeyboardVisibility_listeners ls) \<rparr> \<rparr>))"
| "run_unbind (OptionsUnbind n) w =
     Inr (w \<lparr> options_mounted := filter (\<lambda>m. fst m \<noteq> n) (options_mounted w) \<rparr>)"
| "run_unbind NotAFunction w = Inl TypeError"

text \<open>
  \<^verbatim>\<open>for (const next of unbindControls) next()\<close>: the state reached and the exception
  that ended the loop, if any.
\<close>

fun unbind_all :: "unbind list \<Rightarrow> world \<Rightarrow> world \<times> error option" where
  "unbind_all [] w = (w, None)"
| "unbind_all (next # rest) w =
     (case run_unbind next w of
        Inl e \<Rightarrow> (w, Some e)
      | Inr w' \<Rightarrow> unbind_all rest w')"

text \<open>The loop over \<^verbatim>\<open>layerConfig.controls\<close> (lines 61 to 70).\<close>

fun create_controls :: "gridConfig \<Rightarrow> control list \<Rightarrow> world \<Rightarrow> world \<times> error option" where
  "create_controls gridConfig [] w = (w, None)"
| "create_controls gridConfig (next # rest) w =
     (case get_factory (type next) of
        Undefined \<Rightarrow>
          create_controls gridConfig rest
            (w \<lparr> console := console w @ [not_defined_message (type next)] \<rparr>)
      | Own factory \<Rightarrow>
          (case factory next gridConfig w of
             Inl e \<Rightarrow> (w, Some e)
           | Inr (unbind, w') \<Rightarrow>
               create_controls gridConfig rest
                 (w' \<lparr> unbindControls := unbindControls w' @ [unbind] \<rparr>))
      | Inherited name \<Rightarrow>
          (case call_inherited name of
             Inl e \<Rightarrow> (w, Some e)
           | Inr v \<Rightarrow>
               create_controls gridConfig rest
                 (w \<lparr> unbindControls := unbindControls w @ [v] \<rparr>)))"

text \<open>
  \<^verbatim>\<open>onResize\<close> of \<^verbatim>\<open>initLayerConfig\<close> (lines 53 to 71). The grid of
  \<^verbatim>\<open>controls/grid.ts\<close> is a parameter: \<open>getConfiguration g width height\<close> stands for
  \<^verbatim>\<open>getGrid(g).getConfiguration(width, height)\<close>. An undefined \<^verbatim>\<open>layerConfig\<close> is
  \<open>None\<close>; reading its \<^verbatim>\<open>grid\<close> throws.
\<close>

definition onResize ::
  "(string \<Rightarrow> rat \<Rightarrow> rat \<Rightarrow> error + gridConfig) \<Rightarrow> layerConfig option \<Rightarrow> rat \<Rightarrow> rat \<Rightarrow>
   world \<Rightarrow> world \<times> error option" where
  "onResize getConfiguration layerConfig width height w =
     (case unbind_all (unbindControls w) w of
        (w, Some e) \<Rightarrow> (w, Some e)
      | (w, None) \<Rightarrow>
          let w = w \<lparr> unbindControls := [] \<rparr>
          in (case layerConfig of
                None \<Rightarrow> (w, Some TypeError)
              | Some lc \<Rightarrow>
                  (case getConfiguration (grid lc) width height of
                     Inl e \<Rightarrow> (w, Some e)
                   | Inr gridConfig \<Rightarrow> create_controls gridConfig (controls lc) w)))"

text \<open>
  \<^verbatim>\<open>initLayerConfig\<close> up to its \<^verbatim>\<open>return\<close>, for the instance \<open>self\<close>; the bindings made
  by \<^verbatim>\<open>keyboard\<close> and \<^verbatim>\<open>mouse\<close> are two flags. An exception of the first \<^verbatim>\<open>onResize\<close>
  leaves \<^verbatim>\<open>initLayerConfig\<close>.
\<close>

definition initLayerConfig ::
  "(string \<Rightarrow> rat \<Rightarrow> rat \<Rightarrow> error + gridConfig) \<Rightarrow> layerConfig option \<Rightarrow> nat \<Rightarrow>
   world \<Rightarrow> world \<times> error option" where
  "initLayerConfig getConfiguration layerConfig self w =
     (let w = w \<lparr> keyboard_bound := True, mouse_bound := True \<rparr>;
          w = w \<lparr> unbindControls := [] \<rparr>;
          w = w \<lparr> w_layers := addOnResize (ControlsOnResize self) (w_layers w) \<rparr>
      in onResize getConfiguration layerConfig
           (layers_width (w_layers w)) (layers_height (w_layers w)) w)"

text \<open>The function returned by \<^verbatim>\<open>initLayerConfig\<close> (lines 76 to 83).\<close>

definition dispose :: "nat \<Rightarrow> world \<Rightarrow> world \<times> error option" where
  "dispose self w =
     (let w = w \<lparr> w_layers := removeOnResize (ControlsOnResize self) (w_layers w) \<rparr>;
          w = w \<lparr> keyboard_bound := False, mouse_bound := False \<rparr>
      in unbind_all (unbindControls w) w)"

text \<open>
  The selection loop of \<^verbatim>\<open>initLayersControl\<close> (lines 19 to 24), with its \<^verbatim>\<open>break\<close>.
  The optional argument \<^verbatim>\<open>layerName\<close> is \<open>name_opt\<close>, \<open>None\<close> when it is undefined.
\<close>

fun select_by_title :: "layerConfig list \<Rightarrow> string \<Rightarrow> layerConfig option \<Rightarrow> layerConfig option" where
  "select_by_title [] name selectedLayer = selectedLayer"
| "select_by_title (next # rest) name selectedLayer =
     (if title next = name then Some next
      else select_by_title rest name selectedLayer)"

text \<open>
  \<^verbatim>\<open>initLayersControl\<close> (lines 11 to 27): the first layer is selected, the loop may
  replace it, and \<^verbatim>\<open>initLayerConfig\<close> is called on the selection, which is undefined
  (\<open>None\<close>) when the list is empty.
\<close>

definition initLayersControl ::
  "(string \<Rightarrow> rat \<Rightarrow> rat \<Rightarrow> error + gridConfig) \<Rightarrow> layersConfig \<Rightarrow> nat \<Rightarrow> string option \<Rightarrow>
   world \<Rightarrow> world \<times> error option" where
  "initLayersControl getConfiguration layersConfig self name_opt w =
     (let selectedLayer = (case config_layers layersConfig of [] \<Rightarrow> None | l # _ \<Rightarrow> Some l);
          selectedLayer =
            (case name_opt of
               None \<Rightarrow> selectedLayer
             | Some name \<Rightarrow> select_by_title (config_layers layersConfig) name selectedLayer)
      in initLayerConfig getConfiguration selectedLayer self w)"

section \<open>Invariant of the unbind list\<close>

text \<open>
  The DOM nodes that the registered unbind functions remove, and the identities of all
  registered unbind functions.
\<close>

fun unbind_nodes :: "unbind list \<Rightarrow> nat list" where
  "unbind_nodes [] = []"
| "unbind_nodes (RemoveButton n # us) = n # unbind_nodes us"
| "unbind_nodes (RemoveKeyboardButton n # us) = n # unbind_nodes us"
| "unbind_nodes (OptionsUnbind n # us) = unbind_nodes us"
| "unbind_nodes (NotAFunction # us) = unbind_nodes us"

fun unbind_ids :: "unbind list \<Rightarrow> nat list" where
  "unbind_ids [] = []"
| "unbind_ids (RemoveButton n # us) = n # unbind_ids us"
| "unbind_ids (RemoveKeyboardButton n # us) = n # unbind_ids us"
| "unbind_ids (OptionsUnbind n # us) = n # unbind_ids us"
| "unbind_ids (NotAFunction # us) = unbind_ids us"

definition overlay_nodes :: "world \<Rightarrow> nat list" where
  "overlay_nodes w = map node (mouseOverlay (w_layers w))"

text \<open>
  Every registered value is a function, the buttons they remove are distinct children of
  the overlay, and every node in use is older than the next node to be created.
\<close>

definition controls_inv :: "world \<Rightarrow> bool" where
  "controls_inv w =
     (NotAFunction \<notin> set (unbindControls w)
      \<and> distinct (unbind_nodes (unbindControls w))
      \<and> set (unbind_nodes (unbindControls w)) \<subseteq> set (overlay_nodes w)
      \<and> list_all (\<lambda>n. n < next_node w) (unbind_ids (unbindControls w))
      \<and> list_all (\<lambda>n. n < next_node w) (overlay_nodes w))"

text \<open>The controls whose type is a key of \<^verbatim>\<open>factoryMapping\<close>.\<close>

definition known_controls :: "control list \<Rightarrow> control list" where
  "known_controls cs = filter (\<lambda>c. map_of factoryMapping (type c) \<noteq> None) cs"

definition no_inherited_type :: "control list \<Rightarrow> bool" where
  "no_inherited_type cs = list_all (\<lambda>c. type c \<notin> set objectPrototype_properties) cs"

section \<open>A concrete configuration\<close>

text \<open>
  A grid of one row and two columns, a control in its second cell, and a state with an
  empty overlay; the theorems below are instantiated on them.
\<close>

definition example_grid :: gridConfig where
  "example_grid =
     \<lparr> cells = [[\<lparr> centerX = 50, centerY = 50 \<rparr>, \<lparr> centerX = 150, centerY = 50 \<rparr>]],
       columnWidth = 100, rowHeight = 100, grid_width = 200 \<rparr>"

definition example_control :: "string \<Rightarrow> control" where
  "example_control t =
     \<lparr> type = t, row = 0, column = 1, symbol = ''A'', mapTo = 65, layerName = ''second'',
       direction = ''up-left'', button = 1 \<rparr>"

definition example_canvas :: canvas where
  "example_canvas =
     \<lparr> canvas_width = 0, canvas_height = 0, canvas_style = None, context_2d = True,
       context_webgl = Some \<lparr> vertex_shader_compiles = True, fragment_shader_compiles = True,
                              program_links = True, gl_calls = [] \<rparr>,
       putImageData_calls = [] \<rparr>"

definition example_layers :: layers where
  "example_layers =
     \<lparr> layers_width = 800, layers_height = 600, pointerButton = 0, canvas = example_canvas,
       mouseOverlay = [], onResize_listeners = [ControlsOnResize 0],
       onKeyboardVisibility_listeners = [], toggleKeyboard_calls = 0 \<rparr>"

definition example_ci :: ci where
  "example_ci = \<lparr> ci_width = 320, ci_height = 200, ci_calls = [] \<rparr>"

definition example_world :: world where
  "example_world =
     \<lparr> w_layers = example_layers, w_ci = example_ci, setLayersConfig_calls = [],
       options_mounted = [], keyboard_bound = False, mouse_bound = False, console = [],
       unbindControls = [], next_node = 0 \<rparr>"

definition example_getConfiguration :: "string \<Rightarrow> rat \<Rightarrow> rat \<Rightarrow> error + gridConfig" where
  "example_getConfiguration g width height = Inr example_grid"

definition example_layersConfig :: layersConfig where
  "example_layersConfig =
     \<lparr> config_layers =
         [\<lparr> title = ''A'', grid = ''square'', controls = [] \<rparr>,
          \<lparr> title = ''B'', grid = ''square'', controls = [example_control ''Key''] \<rparr>,
          \<lparr> title = ''B'', grid = ''honeycomb'', controls = [] \<rparr>] \<rparr>"

text \<open>A layer whose first control has the type \<^verbatim>\<open>toString\<close>.\<close>

definition example_layerConfig_inherited :: layerConfig where
  "example_layerConfig_inherited =
     \<lparr> title = ''A'', grid = ''square'',
       controls = [example_control ''toString'', example_control ''Key''] \<rparr>"

section \<open>Placement: theorems\<close>

lemma fit_bounds:
  fixes a cw ch :: rat
  assumes a: "0 < a"
  defines "h \<equiv> (if cw / a > ch then ch else cw / a)"
      and "w \<equiv> (if cw / a > ch then ch * a else cw)"
  shows "w \<le> cw" "h \<le> ch" "w = h * a"
proof -
  show "w \<le> cw"
  proof (cases "cw / a > ch")
    case True
    then have "ch * a < cw" using a by (simp add: pos_less_divide_eq)
    with True show ?thesis by (simp add: w_def)
  qed (simp add: w_def)
  show "h \<le> ch" by (simp add: h_def)
  show "w = h * a" using a by (simp add: w_def h_def)
qed

text \<open>
  Claim C2. The 2D backend and the WebGL backend place the canvas identically: for every
  container size and every frame size the two \<^verbatim>\<open>onResize\<close> procedures yield the same
  displayed width, height, top offset and left offset (and are undefined on the same
  inputs).
\<close>

theorem onResize_backends_agree:
  "onResize_2d containerWidth containerHeight frameWidth frameHeight =
   onResize_webGl containerWidth containerHeight frameWidth frameHeight"
  by (simp add: onResize_2d_def onResize_webGl_def)

text \<open>
  Claim C5, as stated, at an empty container: with \<open>containerWidth = 0\<close> the displayed
  size is \<open>0 \<times> 0\<close>, so the quotient \<open>width / height\<close> is undefined, while the frame
  aspect ratio is \<open>4 / 3\<close>.
\<close>

theorem onResize_ratio_counterexample:
  "onResize_2d 0 10 4 3 =
     Some \<lparr> style_position = ''relative'', style_top = 5, style_left = 0,
            style_width = 0, style_height = 0 \<rparr>
   \<and> displayed_ratio \<lparr> style_position = ''relative'', style_top = 5, style_left = 0,
            style_width = 0, style_height = 0 \<rparr> = None
   \<and> num_div 4 3 = Some (4 / 3)"
  by (simp add: onResize_2d_def displayed_ratio_def num_div_def Let_def)

text \<open>
  Claim C5, amended. For every container size and every frame size with
  \<open>frameWidth > 0\<close> and \<open>frameHeight > 0\<close>, \<^verbatim>\<open>onResize\<close> of either backend yields a
  displayed size with \<open>width \<le> containerWidth\<close>, \<open>height \<le> containerHeight\<close>,
  \<open>width * frameHeight = height * frameWidth\<close> (so \<open>width / height\<close> is the frame aspect
  ratio whenever the displayed height is not zero), \<open>top = (containerHeight - height) / 2\<close>
  and \<open>left = (containerWidth - width) / 2\<close>.
\<close>

theorem onResize_letterbox:
  assumes "0 < frameWidth" "0 < frameHeight"
  shows "\<exists>p. onResize_2d containerWidth containerHeight frameWidth frameHeight = Some p
         \<and> onResize_webGl containerWidth containerHeight frameWidth frameHeight = Some p
         \<and> style_width p \<le> containerWidth
         \<and> style_height p \<le> containerHeight
         \<and> style_width p * frameHeight = style_height p * frameWidth
         \<and> (style_height p \<noteq> 0 \<longrightarrow> displayed_ratio p = num_div frameWidth frameHeight)
         \<and> style_top p = (containerHeight - style_height p) / 2
         \<and> style_left p = (containerWidth - style_width p) / 2"
proof -
  define a where "a = frameWidth / frameHeight"
  define h where
    "h = (if containerWidth / a > containerHeight then containerHeight else containerWidth / a)"
  define w where
    "w = (if containerWidth / a > containerHeight then containerHeight * a else containerWidth)"
  define p where "p = \<lparr> style_position = ''relative'',
                         style_top = (containerHeight - h) / 2,
                         style_left = (containerWidth - w) / 2,
                         style_width = w,
                         style_height = h \<rparr>"
  have a: "0 < a" using assms by (simp add: a_def)
  have nd: "num_div frameWidth frameHeight = Some a"
    "num_div containerWidth a = Some (containerWidth / a)"
    using assms a by (simp_all add: num_div_def a_def)
  have r2: "onResize_2d containerWidth containerHeight frameWidth frameHeight = Some p"
    by (simp add: onResize_2d_def nd Let_def p_def h_def w_def)
  have rg: "onResize_webGl containerWidth containerHeight frameWidth frameHeight = Some p"
    by (simp add: onResize_webGl_def nd Let_def p_def h_def w_def)
  have b: "w \<le> containerWidth" "h \<le> containerHeight" "w = h * a"
    unfolding w_def h_def using fit_bounds [OF a] by simp_all
  have cross: "w * frameHeight = h * frameWidth"
    using b(3) assms by (simp add: a_def)
  have ratio: "h \<noteq> 0 \<longrightarrow> num_div w h = Some a"
    using b(3) by (simp add: num_div_def)
  show ?thesis
    using r2 rg b(1,2) cross ratio nd(1)
    by (intro exI [of _ p]) (simp add: displayed_ratio_def p_def)
qed

theorem onResize_letterbox_witness:
  "(0::rat) < 320 \<and> (0::rat) < 200
   \<and> (\<exists>p. onResize_2d 800 600 320 200 = Some p
         \<and> onResize_webGl 800 600 320 200 = Some p
         \<and> style_width p \<le> 800
         \<and> style_height p \<le> 600
         \<and> style_width p * 200 = style_height p * 320
         \<and> style_height p \<noteq> 0
         \<and> displayed_ratio p = num_div 320 200
         \<and> style_top p = (600 - style_height p) / 2
         \<and> style_left p = (800 - style_width p) / 2)"
proof -
  have ev: "onResize_2d 800 600 320 200 =
      Some \<lparr> style_position = ''relative'', style_top = 50, style_left = 0,
             style_width = 800, style_height = 500 \<rparr>"
    by (simp add: onResize_2d_def num_div_def Let_def)
  obtain p where p: "onResize_2d 800 600 320 200 = Some p"
    "onResize_webGl 800 600 320 200 = Some p"
    "style_width p \<le> 800" "style_height p \<le> 600"
    "style_width p * 200 = style_height p * 320"
    "style_height p \<noteq> 0 \<longrightarrow> displayed_ratio p = num_div 320 200"
    "style_top p = (600 - style_height p) / 2"
    "style_left p = (800 - style_width p) / 2"
    using onResize_letterbox [of 320 200 800 600] by auto
  from p(1) ev have nz: "style_height p \<noteq> 0" by auto
  with p show ?thesis by (intro conjI exI [of _ p]) simp_all
qed

section \<open>The 2D frame handler: theorems\<close>

lemma onFrame_loop_length: "length (onFrame_loop rgb ro rao rgba) = length rgba"
proof (induction rgb ro rao rgba rule: onFrame_loop.induct)
  case (1 rgb ro rao rgba)
  show ?case
  proof (cases "rao < length rgba")
    case True
    with 1 show ?thesis by (subst onFrame_loop.simps) simp
  next
    case False
    then show ?thesis by (subst onFrame_loop.simps) simp
  qed
qed



text \<open>
  The length of \<^verbatim>\<open>rgba\<close> is set by the frame-size handler and kept by the other
  handlers; \<^verbatim>\<open>_2d\<close> returns in such a state.
\<close>

lemma onResizeFrame_2d_inv: "inv_2d (fst (onResizeFrame_2d w h s))"
  by (simp add: onResizeFrame_2d_def inv_2d_def Let_def)

lemma onResizeLayer_2d_inv: "inv_2d (fst s) \<Longrightarrow> inv_2d (fst (onResizeLayer_2d w h s))"
  by (simp add: onResizeLayer_2d_def inv_2d_def Let_def)

lemma onFrame_2d_inv: "inv_2d (fst s) \<Longrightarrow> inv_2d (fst (onFrame_2d rgb s))"
  by (simp add: onFrame_2d_def inv_2d_def Let_def onFrame_loop_length)

lemma graphics_2d_inv: "graphics_2d self ls c = Inr (ls', c', v) \<Longrightarrow> inv_2d v"
  using onResizeFrame_2d_inv
  by (auto simp add: graphics_2d_def Let_def split: if_splits)





section \<open>Subscriptions of the backends: theorems\<close>

lemma filter_absent: "l \<notin> set xs \<Longrightarrow> filter (\<lambda>n. n \<noteq> l) xs = xs"
  by (induction xs) auto

lemma graphics_2d_result:
  assumes "context_2d (canvas ls)"
  shows "\<exists>cv v. graphics_2d self ls c =
           Inr (ls \<lparr> onResize_listeners := onResize_listeners ls @ [OnResizeLayer self],
                     canvas := cv \<rparr>,
                c \<lparr> ci_calls := ci_calls c @
                     [OnFrameSize Canvas2d self, OnFrame Canvas2d self, OnExit Canvas2d self] \<rparr>,
                v)"
  using assms by (simp add: graphics_2d_def Let_def addOnResize_def) blast

lemma graphics_webGl_result:
  assumes "context_webgl (canvas ls) = Some g" "initShaderProgram g = Inr ()"
  shows "\<exists>cv v. graphics_webGl self ls c =
           Inr (ls \<lparr> onResize_listeners := onResize_listeners ls @ [OnResizeLayer self],
                     canvas := cv \<rparr>,
                c \<lparr> ci_calls := ci_calls c @
                     [OnFrameSize WebGl self, OnFrame WebGl self, OnExit WebGl self] \<rparr>,
                v)"
  using assms by (simp add: graphics_webGl_def Let_def addOnResize_def) blast

text \<open>
  Claim C7. Both rendering backends only subscribe to the command interface: the calls
  each makes on it are the registrations on \<^verbatim>\<open>onFrameSize\<close>, \<^verbatim>\<open>onFrame\<close> and
  \<^verbatim>\<open>onExit\<close>. The exit handler of each removes the backend's resize listener from
  layers, which leaves the resize listeners as they were before the backend was
  initialised (together with the listeners that others added in the meantime).
\<close>

theorem backends_subscribe_and_release:
  assumes fresh: "OnResizeLayer self \<notin> set (onResize_listeners ls)"
  shows "(context_2d (canvas ls) \<longrightarrow>
            (\<exists>ls' c' v. graphics_2d self ls c = Inr (ls', c', v)
               \<and> c' = c \<lparr> ci_calls := ci_calls c @
                     [OnFrameSize Canvas2d self, OnFrame Canvas2d self, OnExit Canvas2d self] \<rparr>
               \<and> onResize_listeners ls' = onResize_listeners ls @ [OnResizeLayer self]
               \<and> onResize_listeners (onExit_2d self ls') = onResize_listeners ls
               \<and> (\<forall>others. OnResizeLayer self \<notin> set others \<longrightarrow>
                     onResize_listeners
                       (onExit_2d self (ls' \<lparr> onResize_listeners := onResize_listeners ls' @ others \<rparr>))
                     = onResize_listeners ls @ others)))
       \<and> (\<forall>g. context_webgl (canvas ls) = Some g \<and> initShaderProgram g = Inr () \<longrightarrow>
            (\<exists>ls' c' v. graphics_webGl self ls c = Inr (ls', c', v)
               \<and> c' = c \<lparr> ci_calls := ci_calls c @
                     [OnFrameSize WebGl self, OnFrame WebGl self, OnExit WebGl self] \<rparr>
               \<and> onResize_listeners ls' = onResize_listeners ls @ [OnResizeLayer self]
               \<and> onResize_listeners (onExit_webGl self ls') = onResize_listeners ls
               \<and> (\<forall>others. OnResizeLayer self \<notin> set others \<longrightarrow>
                     onResize_listeners
                       (onExit_webGl self (ls' \<lparr> onResize_listeners := onResize_listeners ls' @ others \<rparr>))
                     = onResize_listeners ls @ others)))"
proof (intro conjI impI allI)
  assume "context_2d (canvas ls)"
  from graphics_2d_result [OF this, of self c] obtain cv v where
    r: "graphics_2d self ls c =
           Inr (ls \<lparr> onResize_listeners := onResize_listeners ls @ [OnResizeLayer self],
                     canvas := cv \<rparr>,
                c \<lparr> ci_calls := ci_calls c @
                     [OnFrameSize Canvas2d self, OnFrame Canvas2d self, OnExit Canvas2d self] \<rparr>,
                v)" by blast
  show "\<exists>ls' c' v. graphics_2d self ls c = Inr (ls', c', v)
               \<and> c' = c \<lparr> ci_calls := ci_calls c @
                     [OnFrameSize Canvas2d self, OnFrame Canvas2d self, OnExit Canvas2d self] \<rparr>
               \<and> onResize_listeners ls' = onResize_listeners ls @ [OnResizeLayer self]
               \<and> onResize_listeners (onExit_2d self ls') = onResize_listeners ls
               \<and> (\<forall>others. OnResizeLayer self \<notin> set others \<longrightarrow>
                     onResize_listeners
                       (onExit_2d self (ls' \<lparr> onResize_listeners := onResize_listeners ls' @ others \<rparr>))
                     = onResize_listeners ls @ others)"
    unfolding r using fresh
    by (simp add: onExit_2d_def removeOnResize_def filter_absent)
next
  fix g assume "context_webgl (canvas ls) = Some g \<and> initShaderProgram g = Inr ()"
  then have "context_webgl (canvas ls) = Some g" "initShaderProgram g = Inr ()" by simp_all
  from graphics_webGl_result [OF this, of self c] obtain cv v where
    r: "graphics_webGl self ls c =
           Inr (ls \<lparr> onResize_listeners := onResize_listeners ls @ [OnResizeLayer self],
                     canvas := cv \<rparr>,
                c \<lparr> ci_calls := ci_calls c @
                     [OnFrameSize WebGl self, OnFrame WebGl self, OnExit WebGl self] \<rparr>,
                v)" by blast
  show "\<exists>ls' c' v. graphics_webGl self ls c = Inr (ls', c', v)
               \<and> c' = c \<lparr> ci_calls := ci_calls c @
                     [OnFrameSize WebGl self, OnFrame WebGl self, OnExit WebGl self] \<rparr>
               \<and> onResize_listeners ls' = onResize_listeners ls @ [OnResizeLayer self]
               \<and> onResize_listeners (onExit_webGl self ls') = onResize_listeners ls
               \<and> (\<forall>others. OnResizeLayer self \<notin> set others \<longrightarrow>
                     onResize_listeners
                       (onExit_webGl self (ls' \<lparr> onResize_listeners := onResize_listeners ls' @ others \<rparr>))
                     = onResize_listeners ls @ others)"
    unfolding r using fresh
    by (simp add: onExit_webGl_def removeOnResize_def filter_absent)
qed

theorem backends_subscribe_and_release_witness:
  "OnResizeLayer 1 \<notin> set (onResize_listeners example_layers)
   \<and> context_2d (canvas example_layers)
   \<and> (\<exists>g. context_webgl (canvas example_layers) = Some g \<and> initShaderProgram g = Inr ())
   \<and> OnResizeLayer 1 \<notin> set [ControlsOnResize 2]
   \<and> (\<exists>ls' c' v. graphics_2d 1 example_layers example_ci = Inr (ls', c', v)
        \<and> ci_calls c' = [OnFrameSize Canvas2d 1, OnFrame Canvas2d 1, OnExit Canvas2d 1]
        \<and> onResize_listeners ls' = [ControlsOnResize 0, OnResizeLayer 1]
        \<and> onResize_listeners (onExit_2d 1 ls') = [ControlsOnResize 0]
        \<and> onResize_listeners
             (onExit_2d 1 (ls' \<lparr> onResize_listeners := onResize_listeners ls' @ [ControlsOnResize 2] \<rparr>))
           = [ControlsOnResize 0, ControlsOnResize 2])
   \<and> (\<exists>ls' c' v. graphics_webGl 1 example_layers example_ci = Inr (ls', c', v)
        \<and> ci_calls c' = [OnFrameSize WebGl 1, OnFrame WebGl 1, OnExit WebGl 1]
        \<and> onResize_listeners ls' = [ControlsOnResize 0, OnResizeLayer 1]
        \<and> onResize_listeners (onExit_webGl 1 ls') = [ControlsOnResize 0]
        \<and> onResize_listeners
             (onExit_webGl 1 (ls' \<lparr> onResize_listeners := onResize_listeners ls' @ [ControlsOnResize 2] \<rparr>))
           = [ControlsOnResize 0, ControlsOnResize 2])"
proof -
  have fresh: "OnResizeLayer 1 \<notin> set (onResize_listeners example_layers)"
    by (simp add: example_layers_def)
  have c2d: "context_2d (canvas example_layers)"
    by (simp add: example_layers_def example_canvas_def)
  have gl: "context_webgl (canvas example_layers) =
      Some \<lparr> vertex_shader_compiles = True, fragment_shader_compiles = True,
             program_links = True, gl_calls = [] \<rparr>
    \<and> initShaderProgram \<lparr> vertex_shader_compiles = True, fragment_shader_compiles = True,
             program_links = True, gl_calls = [] \<rparr> = Inr ()"
    by (simp add: example_layers_def example_canvas_def initShaderProgram_def)
  have other: "OnResizeLayer 1 \<notin> set [ControlsOnResize 2]" by simp
  have ls: "onResize_listeners example_layers = [ControlsOnResize 0]"
    "ci_calls example_ci = []"
    by (simp_all add: example_layers_def example_ci_def)
  note t = backends_subscribe_and_release [OF fresh, of example_ci]
  from t c2d obtain ls' c' v where a:
    "graphics_2d 1 example_layers example_ci = Inr (ls', c', v)"
    "c' = example_ci \<lparr> ci_calls := ci_calls example_ci @
                     [OnFrameSize Canvas2d 1, OnFrame Canvas2d 1, OnExit Canvas2d 1] \<rparr>"
    "onResize_listeners ls' = onResize_listeners example_layers @ [OnResizeLayer 1]"
    "onResize_listeners (onExit_2d 1 ls') = onResize_listeners example_layers"
    "\<forall>others. OnResizeLayer 1 \<notin> set others \<longrightarrow>
        onResize_listeners
          (onExit_2d 1 (ls' \<lparr> onResize_listeners := onResize_listeners ls' @ others \<rparr>))
        = onResize_listeners example_layers @ others"
    by blast
  from t gl obtain ms' d' u where b:
    "graphics_webGl 1 example_layers example_ci = Inr (ms', d', u)"
    "d' = example_ci \<lparr> ci_calls := ci_calls example_ci @
                     [OnFrameSize WebGl 1, OnFrame WebGl 1, OnExit WebGl 1] \<rparr>"
    "onResize_listeners ms' = onResize_listeners example_layers @ [OnResizeLayer 1]"
    "onResize_listeners (onExit_webGl 1 ms') = onResize_listeners example_layers"
    "\<forall>others. OnResizeLayer 1 \<notin> set others \<longrightarrow>
        onResize_listeners
          (onExit_webGl 1 (ms' \<lparr> onResize_listeners := onResize_listeners ms' @ others \<rparr>))
        = onResize_listeners example_layers @ others"
    by blast
  have a5: "onResize_listeners
             (onExit_2d 1 (ls' \<lparr> onResize_listeners := onResize_listeners ls' @ [ControlsOnResize 2] \<rparr>))
           = [ControlsOnResize 0, ControlsOnResize 2]"
    using a(5) other ls by simp
  have b5: "onResize_listeners
             (onExit_webGl 1 (ms' \<lparr> onResize_listeners := onResize_listeners ms' @ [ControlsOnResize 2] \<rparr>))
           = [ControlsOnResize 0, ControlsOnResize 2]"
    using b(5) other ls by simp
  have A: "\<exists>ls' c' v. graphics_2d 1 example_layers example_ci = Inr (ls', c', v)
        \<and> ci_calls c' = [OnFrameSize Canvas2d 1, OnFrame Canvas2d 1, OnExit Canvas2d 1]
        \<and> onResize_listeners ls' = [ControlsOnResize 0, OnResizeLayer 1]
        \<and> onResize_listeners (onExit_2d 1 ls') = [ControlsOnResize 0]
        \<and> onResize_listeners
             (onExit_2d 1 (ls' \<lparr> onResize_listeners := onResize_listeners ls' @ [ControlsOnResize 2] \<rparr>))
           = [ControlsOnResize 0, ControlsOnResize 2]"
    using a(1,2,3,4) a5 ls by simp
  have B: "\<exists>ls' c' v. graphics_webGl 1 example_layers example_ci = Inr (ls', c', v)
        \<and> ci_calls c' = [OnFrameSize WebGl 1, OnFrame WebGl 1, OnExit WebGl 1]
        \<and> onResize_listeners ls' = [ControlsOnResize 0, OnResizeLayer 1]
        \<and> onResize_listeners (onExit_webGl 1 ls') = [ControlsOnResize 0]
        \<and> onResize_listeners
             (onExit_webGl 1 (ls' \<lparr> onResize_listeners := onResize_listeners ls' @ [ControlsOnResize 2] \<rparr>))
           = [ControlsOnResize 0, ControlsOnResize 2]"
    using b(1,2,3,4) b5 ls by simp
  from fresh c2d gl other A B show ?thesis by blast
qed

section \<open>Handlers of the button controls: theorems\<close>

lemma createButton_simps [simp]:
  "fst (createButton label down up sz w) =
     \<lparr> node = next_node w, node_symbol = label, onDown = down, onUp = up, node_size = sz,
       node_position = [], node_left = 0, node_top = 0 \<rparr>"
  "snd (createButton label down up sz w) = w \<lparr> next_node := Suc (next_node w) \<rparr>"
  by (simp_all add: createButton_def)

lemma place_button_overlay:
  "mouseOverlay (w_layers (place_button b cl g w)) =
     mouseOverlay (w_layers w) @
       [b \<lparr> node_position := ''absolute'', node_left := centerX cl - columnWidth g / 2,
            node_top := centerY cl - rowHeight g / 2 \<rparr>]"
  by (simp add: place_button_def Let_def)

text \<open>
  Claim C1. For every Key control created by \<^verbatim>\<open>createKeyControl\<close>, the \<^verbatim>\<open>onDown\<close>
  handler of its button sends exactly one key event \<^verbatim>\<open>sendKeyEvent(mapTo, true)\<close> and
  the \<^verbatim>\<open>onUp\<close> handler sends exactly one key event \<^verbatim>\<open>sendKeyEvent(mapTo, false)\<close>,
  with the key code of the control's \<^verbatim>\<open>mapTo\<close> field, and changes nothing else.
\<close>

theorem key_control_events:
  assumes "createKeyControl keyControl gridConfig w = Inr (u, w')"
  shows "\<exists>b down up.
           mouseOverlay (w_layers w') = mouseOverlay (w_layers w) @ [b]
         \<and> onDown b = Some down \<and> onUp b = Some up
         \<and> (\<forall>s. run_handler down s =
                  s \<lparr> w_ci := (w_ci s) \<lparr> ci_calls := ci_calls (w_ci s) @
                         [SendKeyEvent (mapTo keyControl) True] \<rparr> \<rparr>)
         \<and> (\<forall>s. run_handler up s =
                  s \<lparr> w_ci := (w_ci s) \<lparr> ci_calls := ci_calls (w_ci s) @
                         [SendKeyEvent (mapTo keyControl) False] \<rparr> \<rparr>)"
  using assms
  by (auto simp add: createKeyControl_def Let_def split_beta place_button_overlay
      split: sum.splits)

lemma example_key_created:
  "createKeyControl (example_control ''Key'') example_grid example_world =
     Inr (RemoveButton 0,
          place_button
            \<lparr> node = 0, node_symbol = ''A'', onDown = Some (H_sendKeyEvent 65 True),
              onUp = Some (H_sendKeyEvent 65 False), node_size = 100, node_position = [],
              node_left = 0, node_top = 0 \<rparr>
            \<lparr> centerX = 150, centerY = 50 \<rparr> example_grid
            (example_world \<lparr> next_node := 1 \<rparr>))"
  by (simp add: createKeyControl_def cell_at_def example_control_def example_grid_def
      example_world_def createButton_def)

theorem key_control_events_witness:
  "\<exists>u w'. createKeyControl (example_control ''Key'') example_grid example_world = Inr (u, w')
     \<and> (\<exists>b down up.
           mouseOverlay (w_layers w') = mouseOverlay (w_layers example_world) @ [b]
         \<and> onDown b = Some down \<and> onUp b = Some up
         \<and> ci_calls (w_ci (run_handler down example_world)) = [SendKeyEvent 65 True]
         \<and> ci_calls (w_ci (run_handler up example_world)) = [SendKeyEvent 65 False])"
proof -
  obtain u w' where
    c: "createKeyControl (example_control ''Key'') example_grid example_world = Inr (u, w')"
    using example_key_created by blast
  from key_control_events [OF c] obtain b down up where
    r: "mouseOverlay (w_layers w') = mouseOverlay (w_layers example_world) @ [b]"
      "onDown b = Some down" "onUp b = Some up"
      "\<forall>s. run_handler down s =
          s \<lparr> w_ci := (w_ci s) \<lparr> ci_calls := ci_calls (w_ci s) @
                 [SendKeyEvent (mapTo (example_control ''Key'')) True] \<rparr> \<rparr>"
      "\<forall>s. run_handler up s =
          s \<lparr> w_ci := (w_ci s) \<lparr> ci_calls := ci_calls (w_ci s) @
                 [SendKeyEvent (mapTo (example_control ''Key'')) False] \<rparr> \<rparr>"
    by blast
  have "ci_calls (w_ci (run_handler down example_world)) = [SendKeyEvent 65 True]"
    "ci_calls (w_ci (run_handler up example_world)) = [SendKeyEvent 65 False]"
    using r(4,5) by (simp_all add: example_world_def example_ci_def example_control_def)
  with c r(1,2,3) show ?thesis by blast
qed

lemma indexOf_from_sublist: "0 \<le> indexOf_from i s pat \<longleftrightarrow> sublist pat s"
proof (induction s arbitrary: i)
  case Nil
  show ?case by simp
next
  case (Cons c cs)
  show ?case
    using Cons.IH [of "Suc i"]
    by (auto simp add: sublist_Cons_right)
qed

lemma indexOf_sublist: "0 \<le> indexOf s pat \<longleftrightarrow> sublist pat s"
  by (simp add: indexOf_def indexOf_from_sublist)

text \<open>
  Claim C9. For every ScreenMove control, \<^verbatim>\<open>onDown\<close> sends \<^verbatim>\<open>sendMouseMotion(mX, mY)\<close>
  where \<open>mX\<close> is 1 if the direction contains \<^verbatim>\<open>right\<close>, else 0 if it contains
  \<^verbatim>\<open>left\<close>, else 0.5, and \<open>mY\<close> is 1 if the direction contains \<^verbatim>\<open>down\<close>, else 0 if
  it contains \<^verbatim>\<open>up\<close>, else 0.5; \<^verbatim>\<open>onUp\<close> sends \<^verbatim>\<open>sendMouseMotion(0.5, 0.5)\<close>
  whatever the direction.
\<close>

theorem screenMove_control_events:
  assumes "createScreenMoveControl screenMoveControl gridConfig w = Inr (u, w')"
  shows "\<exists>b down up.
           mouseOverlay (w_layers w') = mouseOverlay (w_layers w) @ [b]
         \<and> onDown b = Some down \<and> onUp b = Some up
         \<and> (\<forall>s. run_handler down s =
                  s \<lparr> w_ci := (w_ci s) \<lparr> ci_calls := ci_calls (w_ci s) @
                    [SendMouseMotion
                       (if sublist ''right'' (direction screenMoveControl) then 1
                        else if sublist ''left'' (direction screenMoveControl) then 0
                        else 1 / 2)
                       (if sublist ''down'' (direction screenMoveControl) then 1
                        else if sublist ''up'' (direction screenMoveControl) then 0
                        else 1 / 2)] \<rparr> \<rparr>)
         \<and> (\<forall>s. run_handler up s =
                  s \<lparr> w_ci := (w_ci s) \<lparr> ci_calls := ci_calls (w_ci s) @
                         [SendMouseMotion (1 / 2) (1 / 2)] \<rparr> \<rparr>)"
  using assms
  by (auto simp add: createScreenMoveControl_def Let_def split_beta place_button_overlay
      screenMove_mX_def screenMove_mY_def indexOf_sublist
      split: sum.splits)

text \<open>
  Claim C10. For every PointerButton control, \<^verbatim>\<open>onDown\<close> sets
  \<^verbatim>\<open>layers.pointerButton\<close> to the configured \<^verbatim>\<open>button\<close> value and \<^verbatim>\<open>onUp\<close> resets it
  to 0; neither handler changes any other field of layers, nor anything else.
\<close>

theorem pointerButton_control_events:
  assumes "createPointerButtonControl pointerButtonControl gridConfig w = Inr (u, w')"
  shows "\<exists>b down up.
           mouseOverlay (w_layers w') = mouseOverlay (w_layers w) @ [b]
         \<and> onDown b = Some down \<and> onUp b = Some up
         \<and> (\<forall>s. run_handler down s =
                  s \<lparr> w_layers := (w_layers s) \<lparr> pointerButton := button pointerButtonControl \<rparr> \<rparr>)
         \<and> (\<forall>s. run_handler up s =
                  s \<lparr> w_layers := (w_layers s) \<lparr> pointerButton := 0 \<rparr> \<rparr>)"
  using assms
  by (auto simp add: createPointerButtonControl_def Let_def split_beta place_button_overlay
      split: sum.splits)

lemma example_cell:
  "cell_at example_grid (row (example_control t)) (column (example_control t)) =
     Inr \<lparr> centerX = 150, centerY = 50 \<rparr>"
  by (simp add: cell_at_def example_grid_def example_control_def)

lemma button_factories_succeed:
  assumes "cell_at g (row c) (column c) = Inr cl"
  shows "\<exists>u w'. createKeyControl c g w = Inr (u, w')"
    "\<exists>u w'. createOptionsControl c g w = Inr (u, w')"
    "\<exists>u w'. createKeyboardControl c g w = Inr (u, w')"
    "\<exists>u w'. createSwitchControl c g w = Inr (u, w')"
    "\<exists>u w'. createScreenMoveControl c g w = Inr (u, w')"
    "\<exists>u w'. createPointerButtonControl c g w = Inr (u, w')"
  using assms
  by (simp_all add: createKeyControl_def createOptionsControl_def createKeyboardControl_def
      createSwitchControl_def createScreenMoveControl_def createPointerButtonControl_def
      Let_def split_beta)

theorem screenMove_control_events_witness:
  "\<exists>u w'. createScreenMoveControl (example_control ''ScreenMove'') example_grid example_world
             = Inr (u, w')
     \<and> (\<exists>b down up.
           mouseOverlay (w_layers w') = mouseOverlay (w_layers example_world) @ [b]
         \<and> onDown b = Some down \<and> onUp b = Some up
         \<and> ci_calls (w_ci (run_handler down example_world)) = [SendMouseMotion 0 0]
         \<and> ci_calls (w_ci (run_handler up example_world)) = [SendMouseMotion (1 / 2) (1 / 2)])"
proof -
  obtain u w' where
    c: "createScreenMoveControl (example_control ''ScreenMove'') example_grid example_world
          = Inr (u, w')"
    using button_factories_succeed(5) [OF example_cell] by blast
  have d: "direction (example_control ''ScreenMove'') = ''up-left''"
    by (simp add: example_control_def)
  have sub: "\<not> sublist ''right'' ''up-left''" "sublist ''left'' ''up-left''"
    "\<not> sublist ''down'' ''up-left''" "sublist ''up'' ''up-left''"
    by (simp_all add: indexOf_sublist [symmetric] indexOf_def)
  from screenMove_control_events [OF c] obtain b down up where
    r: "mouseOverlay (w_layers w') = mouseOverlay (w_layers example_world) @ [b]"
      "onDown b = Some down" "onUp b = Some up"
      "\<forall>s. run_handler down s =
          s \<lparr> w_ci := (w_ci s) \<lparr> ci_calls := ci_calls (w_ci s) @
                 [SendMouseMotion 0 0] \<rparr> \<rparr>"
      "\<forall>s. run_handler up s =
          s \<lparr> w_ci := (w_ci s) \<lparr> ci_calls := ci_calls (w_ci s) @
                 [SendMouseMotion (1 / 2) (1 / 2)] \<rparr> \<rparr>"
    unfolding d using sub by auto
  have "ci_calls (w_ci (run_handler down example_world)) = [SendMouseMotion 0 0]"
    "ci_calls (w_ci (run_handler up example_world)) = [SendMouseMotion (1 / 2) (1 / 2)]"
    using r(4,5) by (simp_all add: example_world_def example_ci_def)
  with c r(1,2,3) show ?thesis by blast
qed

theorem pointerButton_control_events_witness:
  "\<exists>u w'. createPointerButtonControl (example_control ''PointerButton'') example_grid
             example_world = Inr (u, w')
     \<and> (\<exists>b down up.
           mouseOverlay (w_layers w') = mouseOverlay (w_layers example_world) @ [b]
         \<and> onDown b = Some down \<and> onUp b = Some up
         \<and> run_handler down example_world =
             example_world \<lparr> w_layers := example_layers \<lparr> pointerButton := 1 \<rparr> \<rparr>
         \<and> run_handler up (run_handler down example_world) = example_world)"
proof -
  obtain u w' where
    c: "createPointerButtonControl (example_control ''PointerButton'') example_grid
          example_world = Inr (u, w')"
    using button_factories_succeed(6) [OF example_cell] by blast
  from pointerButton_control_events [OF c] obtain b down up where
    r: "mouseOverlay (w_layers w') = mouseOverlay (w_layers example_world) @ [b]"
      "onDown b = Some down" "onUp b = Some up"
      "\<forall>s. run_handler down s =
          s \<lparr> w_layers := (w_layers s)
                 \<lparr> pointerButton := button (example_control ''PointerButton'') \<rparr> \<rparr>"
      "\<forall>s. run_handler up s = s \<lparr> w_layers := (w_layers s) \<lparr> pointerButton := 0 \<rparr> \<rparr>"
    by blast
  have "run_handler down example_world =
          example_world \<lparr> w_layers := example_layers \<lparr> pointerButton := 1 \<rparr> \<rparr>"
    "run_handler up (run_handler down example_world) = example_world"
    using r(4,5) by (simp_all add: example_world_def example_layers_def example_control_def)
  with c r(1,2,3) show ?thesis by blast
qed

section \<open>Dispatch on the control type: theorems\<close>

text \<open>The own keys of the table are the six control types.\<close>

lemma factoryMapping_keys:
  "map fst factoryMapping =
     [''Key'', ''Options'', ''Keyboard'', ''Switch'', ''ScreenMove'', ''PointerButton'']"
  by (simp add: factoryMapping_def)

lemma get_factory_cases:
  "get_factory t =
     (if t = ''Key'' then Own createKeyControl
      else if t = ''Options'' then Own createOptionsControl
      else if t = ''Keyboard'' then Own createKeyboardControl
      else if t = ''Switch'' then Own createSwitchControl
      else if t = ''ScreenMove'' then Own createScreenMoveControl
      else if t = ''PointerButton'' then Own createPointerButtonControl
      else if t \<in> set objectPrototype_properties then Inherited t
      else Undefined)"
  by (simp add: get_factory_def factoryMapping_def)

text \<open>
  A control whose type is neither one of the six keys nor the name of an inherited
  property is skipped: the error is logged, nothing is pushed on \<^verbatim>\<open>unbindControls\<close>,
  and the loop goes on with the remaining controls.
\<close>

lemma undefined_type_skipped:
  assumes "type c \<notin> set (map fst factoryMapping)" "type c \<notin> set objectPrototype_properties"
  shows "create_controls g (c # cs) w =
           create_controls g cs (w \<lparr> console := console w @ [not_defined_message (type c)] \<rparr>)"
  using assms by (simp add: get_factory_cases factoryMapping_keys)

lemma example_inherited_run:
  "create_controls example_grid [example_control ''toString'', example_control ''Key'']
     example_world =
   ((place_button
       \<lparr> node = 0, node_symbol = ''A'', onDown = Some (H_sendKeyEvent 65 True),
         onUp = Some (H_sendKeyEvent 65 False), node_size = 100, node_position = [],
         node_left = 0, node_top = 0 \<rparr>
       \<lparr> centerX = 150, centerY = 50 \<rparr> example_grid
       (example_world \<lparr> unbindControls := [NotAFunction], next_node := 1 \<rparr>))
     \<lparr> unbindControls := [NotAFunction, RemoveButton 0] \<rparr>, None)"
proof -
  have t: "type (example_control ''toString'') = ''toString''"
    "type (example_control ''Key'') = ''Key''"
    by (simp_all add: example_control_def)
  have g1: "get_factory ''toString'' = Inherited ''toString''"
    by (simp add: get_factory_cases objectPrototype_properties_def)
  have g2: "get_factory ''Key'' = Own createKeyControl"
    by (simp add: get_factory_cases)
  have k: "createKeyControl (example_control ''Key'') example_grid
             (example_world \<lparr> unbindControls := [NotAFunction] \<rparr>) =
     Inr (RemoveButton 0,
          place_button
            \<lparr> node = 0, node_symbol = ''A'', onDown = Some (H_sendKeyEvent 65 True),
              onUp = Some (H_sendKeyEvent 65 False), node_size = 100, node_position = [],
              node_left = 0, node_top = 0 \<rparr>
            \<lparr> centerX = 150, centerY = 50 \<rparr> example_grid
            (example_world \<lparr> unbindControls := [NotAFunction], next_node := 1 \<rparr>))"
    by (simp add: createKeyControl_def cell_at_def example_control_def example_grid_def
      example_world_def createButton_def)
  have u: "unbindControls example_world = []"
    by (simp add: example_world_def)
  show ?thesis
    by (simp add: t g1 g2 k u call_inherited_def place_button_def Let_def)
qed

text \<open>
  Claim C4 on the code, at a control whose type is \<^verbatim>\<open>toString\<close>, followed by a Key
  control. The type is none of the six keys of \<^verbatim>\<open>factoryMapping\<close>, yet the lookup
  finds the inherited \<^verbatim>\<open>Object.prototype.toString\<close>, which is not \<^verbatim>\<open>undefined\<close>: no
  error is logged and the value returned by the call is pushed on \<^verbatim>\<open>unbindControls\<close>,
  so the control is not skipped.
\<close>

theorem inherited_type_not_skipped:
  "console (fst (create_controls example_grid
      [example_control ''toString'', example_control ''Key''] example_world)) = []
   \<and> unbindControls (fst (create_controls example_grid
      [example_control ''toString'', example_control ''Key''] example_world))
     = [NotAFunction, RemoveButton 0]
   \<and> snd (create_controls example_grid
      [example_control ''toString'', example_control ''Key''] example_world) = None"
  unfolding example_inherited_run by (simp add: place_button_def Let_def example_world_def)

section \<open>Selection of the layer: theorems\<close>

lemma select_by_title_find:
  "select_by_title ls name sel =
     (case find (\<lambda>l. title l = name) ls of Some l \<Rightarrow> Some l | None \<Rightarrow> sel)"
  by (induction ls) auto

lemma initLayerConfig_undefined:
  "snd (initLayerConfig getConfiguration None self w) = Some TypeError"
  by (simp add: initLayerConfig_def onResize_def Let_def)

text \<open>
  Claim C8. \<^verbatim>\<open>initLayersControl\<close> initialises the first layer of
  \<^verbatim>\<open>layersConfig.layers\<close> whose title equals \<^verbatim>\<open>layerName\<close> when \<^verbatim>\<open>layerName\<close> is
  given and such a layer exists; otherwise (\<^verbatim>\<open>layerName\<close> undefined, or no title
  matches) it initialises the first layer of the list. On an empty list the selected
  layer is undefined and the initialisation fails with a \<^verbatim>\<open>TypeError\<close>.
\<close>

theorem initLayersControl_selection:
  "(\<forall>name l. name_opt = Some name \<and> find (\<lambda>l. title l = name) (config_layers lc) = Some l
        \<longrightarrow> initLayersControl getConfiguration lc self name_opt w =
              initLayerConfig getConfiguration (Some l) self w)
   \<and> (\<forall>l0 rest. config_layers lc = l0 # rest
          \<and> (name_opt = None
              \<or> (\<exists>name. name_opt = Some name
                    \<and> find (\<lambda>l. title l = name) (config_layers lc) = None))
        \<longrightarrow> initLayersControl getConfiguration lc self name_opt w =
              initLayerConfig getConfiguration (Some l0) self w)
   \<and> (config_layers lc = []
        \<longrightarrow> initLayersControl getConfiguration lc self name_opt w =
              initLayerConfig getConfiguration None self w
          \<and> snd (initLayersControl getConfiguration lc self name_opt w) = Some TypeError)"
proof (intro conjI allI impI)
  fix name l
  assume "name_opt = Some name \<and> find (\<lambda>l. title l = name) (config_layers lc) = Some l"
  then show "initLayersControl getConfiguration lc self name_opt w =
              initLayerConfig getConfiguration (Some l) self w"
    by (simp add: initLayersControl_def select_by_title_find)
next
  fix l0 rest
  assume "config_layers lc = l0 # rest
          \<and> (name_opt = None
              \<or> (\<exists>name. name_opt = Some name
                    \<and> find (\<lambda>l. title l = name) (config_layers lc) = None))"
  then show "initLayersControl getConfiguration lc self name_opt w =
              initLayerConfig getConfiguration (Some l0) self w"
    by (auto simp add: initLayersControl_def select_by_title_find)
next
  assume e: "config_layers lc = []"
  then show a: "initLayersControl getConfiguration lc self name_opt w =
              initLayerConfig getConfiguration None self w"
    by (cases name_opt) (simp_all add: initLayersControl_def)
  show "snd (initLayersControl getConfiguration lc self name_opt w) = Some TypeError"
    unfolding a by (rule initLayerConfig_undefined)
qed

text \<open>
  The two layers of the example differ in what their initialisation leaves in the
  overlay.
\<close>

lemma example_key_layer_init:
  "overlay_nodes (fst (initLayerConfig example_getConfiguration
      (Some \<lparr> title = ''B'', grid = ''square'', controls = [example_control ''Key''] \<rparr>)
      1 example_world)) = [0]"
  "snd (initLayerConfig example_getConfiguration
      (Some \<lparr> title = ''B'', grid = ''square'', controls = [example_control ''Key''] \<rparr>)
      1 example_world) = None"
  by (simp_all add: initLayerConfig_def onResize_def Let_def example_getConfiguration_def
      get_factory_cases createKeyControl_def cell_at_def example_control_def example_grid_def
      example_world_def example_layers_def addOnResize_def createButton_def place_button_def
      overlay_nodes_def)

lemma example_empty_layer_init:
  "overlay_nodes (fst (initLayerConfig example_getConfiguration
      (Some \<lparr> title = ''A'', grid = ''square'', controls = [] \<rparr>) 1 example_world)) = []"
  by (simp add: initLayerConfig_def onResize_def Let_def example_getConfiguration_def
      example_world_def example_layers_def addOnResize_def overlay_nodes_def)

theorem initLayersControl_selection_witness:
  "find (\<lambda>l. title l = ''B'') (config_layers example_layersConfig) =
      Some \<lparr> title = ''B'', grid = ''square'', controls = [example_control ''Key''] \<rparr>
   \<and> initLayersControl example_getConfiguration example_layersConfig 1 (Some ''B'')
        example_world =
      initLayerConfig example_getConfiguration
        (Some \<lparr> title = ''B'', grid = ''square'', controls = [example_control ''Key''] \<rparr>)
        1 example_world
   \<and> overlay_nodes (fst (initLayersControl example_getConfiguration example_layersConfig 1
        (Some ''B'') example_world)) = [0]
   \<and> initLayersControl example_getConfiguration example_layersConfig 1 None example_world =
      initLayerConfig example_getConfiguration
        (Some \<lparr> title = ''A'', grid = ''square'', controls = [] \<rparr>) 1 example_world
   \<and> overlay_nodes (fst (initLayersControl example_getConfiguration example_layersConfig 1
        None example_world)) = []
   \<and> find (\<lambda>l. title l = ''Z'') (config_layers example_layersConfig) = None
   \<and> initLayersControl example_getConfiguration example_layersConfig 1 (Some ''Z'')
        example_world =
      initLayerConfig example_getConfiguration
        (Some \<lparr> title = ''A'', grid = ''square'', controls = [] \<rparr>) 1 example_world
   \<and> snd (initLayersControl example_getConfiguration \<lparr> config_layers = [] \<rparr> 1 (Some ''B'')
            example_world) = Some TypeError"
proof -
  have f1: "find (\<lambda>l. title l = ''B'') (config_layers example_layersConfig) =
      Some \<lparr> title = ''B'', grid = ''square'', controls = [example_control ''Key''] \<rparr>"
    by (simp add: example_layersConfig_def)
  have f2: "find (\<lambda>l. title l = ''Z'') (config_layers example_layersConfig) = None"
    by (simp add: example_layersConfig_def)
  have l: "config_layers example_layersConfig =
      \<lparr> title = ''A'', grid = ''square'', controls = [] \<rparr> #
      [\<lparr> title = ''B'', grid = ''square'', controls = [example_control ''Key''] \<rparr>,
       \<lparr> title = ''B'', grid = ''honeycomb'', controls = [] \<rparr>]"
    by (simp add: example_layersConfig_def)
  have a: "initLayersControl example_getConfiguration example_layersConfig 1 (Some ''B'')
        example_world =
      initLayerConfig example_getConfiguration
        (Some \<lparr> title = ''B'', grid = ''square'', controls = [example_control ''Key''] \<rparr>)
        1 example_world"
    using initLayersControl_selection [of "Some ''B''" example_layersConfig
        example_getConfiguration 1 example_world] f1 by blast
  have b: "initLayersControl example_getConfiguration example_layersConfig 1 None example_world =
      initLayerConfig example_getConfiguration
        (Some \<lparr> title = ''A'', grid = ''square'', controls = [] \<rparr>) 1 example_world"
    using initLayersControl_selection [of None example_layersConfig
        example_getConfiguration 1 example_world] l by blast
  have c: "initLayersControl example_getConfiguration example_layersConfig 1 (Some ''Z'')
        example_world =
      initLayerConfig example_getConfiguration
        (Some \<lparr> title = ''A'', grid = ''square'', controls = [] \<rparr>) 1 example_world"
    using initLayersControl_selection [of "Some ''Z''" example_layersConfig
        example_getConfiguration 1 example_world] l f2 by blast
  have emp: "config_layers \<lparr> config_layers = [] \<rparr> = []" by simp
  have e: "snd (initLayersControl example_getConfiguration \<lparr> config_layers = [] \<rparr> 1 (Some ''B'')
            example_world) = Some TypeError"
    using initLayersControl_selection [of "Some ''B''" "\<lparr> config_layers = [] \<rparr>"
        example_getConfiguration 1 example_world] emp by blast
  have oa: "overlay_nodes (fst (initLayersControl example_getConfiguration
        example_layersConfig 1 (Some ''B'') example_world)) = [0]"
    unfolding a by (rule example_key_layer_init(1))
  have ob: "overlay_nodes (fst (initLayersControl example_getConfiguration
        example_layersConfig 1 None example_world)) = []"
    unfolding b by (rule example_empty_layer_init)
  from f1 a oa b ob f2 c e show ?thesis by blast
qed

section \<open>The unbind list across a resize: theorems\<close>

lemma unbind_nodes_append: "unbind_nodes (us @ vs) = unbind_nodes us @ unbind_nodes vs"
  by (induction us rule: unbind_nodes.induct) simp_all

lemma unbind_ids_append: "unbind_ids (us @ vs) = unbind_ids us @ unbind_ids vs"
  by (induction us rule: unbind_ids.induct) simp_all

lemma unbind_nodes_subset_ids: "set (unbind_nodes us) \<subseteq> set (unbind_ids us)"
  by (induction us rule: unbind_nodes.induct) auto

lemma unbind_nodes_distinct: "distinct (unbind_ids us) \<Longrightarrow> distinct (unbind_nodes us)"
proof (induction us rule: unbind_nodes.induct)
  case (2 n us)
  then show ?case using unbind_nodes_subset_ids [of us] by auto
next
  case (3 n us)
  then show ?case using unbind_nodes_subset_ids [of us] by auto
qed simp_all

lemma unbind_ids_length:
  "NotAFunction \<notin> set us \<Longrightarrow> length (unbind_ids us) = length us"
  by (induction us rule: unbind_ids.induct) simp_all

lemma unbind_member_id:
  "u \<in> set us \<Longrightarrow> u \<noteq> NotAFunction \<Longrightarrow> \<exists>n \<in> set (unbind_ids us). unbind_ids [u] = [n]"
  by (induction us rule: unbind_ids.induct) auto

lemma overlay_nodes_removeChild:
  assumes "n \<in> set (overlay_nodes w)"
  shows "removeChild n (w_layers w) =
           Inr ((w_layers w) \<lparr> mouseOverlay := filter (\<lambda>b. node b \<noteq> n) (mouseOverlay (w_layers w)) \<rparr>)"
  using assms by (simp add: removeChild_def overlay_nodes_def)

lemma map_node_filter:
  "map node (filter (\<lambda>b. node b \<noteq> n) bs) = filter (\<lambda>m. m \<noteq> n) (map node bs)"
  by (induction bs) auto

lemma run_unbind_ok:
  assumes "u \<noteq> NotAFunction" "set (unbind_nodes [u]) \<subseteq> set (overlay_nodes w)"
  shows "\<exists>w1. run_unbind u w = Inr w1
      \<and> overlay_nodes w1 = filter (\<lambda>n. n \<notin> set (unbind_nodes [u])) (overlay_nodes w)
      \<and> next_node w1 = next_node w \<and> unbindControls w1 = unbindControls w"
proof (cases u)
  case (RemoveButton n)
  with assms have "n \<in> set (overlay_nodes w)" by simp
  from overlay_nodes_removeChild [OF this] show ?thesis
    using RemoveButton by (simp add: overlay_nodes_def map_node_filter)
next
  case (RemoveKeyboardButton n)
  with assms have "n \<in> set (overlay_nodes w)" by simp
  from overlay_nodes_removeChild [OF this] show ?thesis
    using RemoveKeyboardButton by (simp add: overlay_nodes_def map_node_filter)
next
  case (OptionsUnbind n)
  then show ?thesis by (simp add: overlay_nodes_def)
next
  case NotAFunction
  with assms show ?thesis by simp
qed

lemma unbind_nodes_Cons: "unbind_nodes (u # us) = unbind_nodes [u] @ unbind_nodes us"
  using unbind_nodes_append [of "[u]" us] by simp

lemma unbind_ids_Cons: "unbind_ids (u # us) = unbind_ids [u] @ unbind_ids us"
  using unbind_ids_append [of "[u]" us] by simp

lemma unbind_all_ok:
  assumes "NotAFunction \<notin> set us" "distinct (unbind_nodes us)"
    "set (unbind_nodes us) \<subseteq> set (overlay_nodes w)"
  shows "\<exists>w1. unbind_all us w = (w1, None)
      \<and> overlay_nodes w1 = filter (\<lambda>n. n \<notin> set (unbind_nodes us)) (overlay_nodes w)
      \<and> next_node w1 = next_node w \<and> unbindControls w1 = unbindControls w"
  using assms
proof (induction us arbitrary: w)
  case Nil
  then show ?case by simp
next
  case (Cons u us)
  have nodes: "unbind_nodes (u # us) = unbind_nodes [u] @ unbind_nodes us"
    by (rule unbind_nodes_Cons)
  from Cons.prems have u: "u \<noteq> NotAFunction" "NotAFunction \<notin> set us" by auto
  from Cons.prems(3) have sub: "set (unbind_nodes [u]) \<subseteq> set (overlay_nodes w)"
    "set (unbind_nodes us) \<subseteq> set (overlay_nodes w)"
    unfolding nodes by auto
  from Cons.prems(2) have dis: "distinct (unbind_nodes us)"
    "set (unbind_nodes [u]) \<inter> set (unbind_nodes us) = {}"
    unfolding nodes by auto
  from run_unbind_ok [OF u(1) sub(1)] obtain w1 where w1: "run_unbind u w = Inr w1"
    "overlay_nodes w1 = filter (\<lambda>n. n \<notin> set (unbind_nodes [u])) (overlay_nodes w)"
    "next_node w1 = next_node w" "unbindControls w1 = unbindControls w" by blast
  have sub1: "set (unbind_nodes us) \<subseteq> set (overlay_nodes w1)"
    using sub(2) dis(2) unfolding w1(2) by auto
  from Cons.IH [OF u(2) dis(1) sub1] obtain w2 where w2: "unbind_all us w1 = (w2, None)"
    "overlay_nodes w2 = filter (\<lambda>n. n \<notin> set (unbind_nodes us)) (overlay_nodes w1)"
    "next_node w2 = next_node w1" "unbindControls w2 = unbindControls w1" by blast
  have "overlay_nodes w2 =
      filter (\<lambda>n. n \<notin> set (unbind_nodes (u # us))) (overlay_nodes w)"
    unfolding w2(2) w1(2) nodes by (simp add: conj_commute)
  then show ?case using w1 w2 by simp
qed

lemma factory_post:
  assumes "map_of factoryMapping t = Some f" "f c g w = Inr (u, w')"
  shows "unbindControls w' = unbindControls w \<and> next_node w' = Suc (next_node w)
       \<and> unbind_ids [u] = [next_node w]
       \<and> overlay_nodes w' = overlay_nodes w @ unbind_nodes [u]"
proof -
  from assms(1) have "(t, f) \<in> set factoryMapping" by (rule map_of_SomeD)
  then consider "f = createKeyControl" | "f = createOptionsControl"
    | "f = createKeyboardControl" | "f = createSwitchControl"
    | "f = createScreenMoveControl" | "f = createPointerButtonControl"
    by (auto simp add: factoryMapping_def)
  then show ?thesis
  proof cases
    case 1
    with assms(2) show ?thesis
      by (auto simp add: createKeyControl_def createButton_def place_button_def
          overlay_nodes_def Let_def split: sum.splits)
  next
    case 2
    with assms(2) show ?thesis
      by (auto simp add: createOptionsControl_def overlay_nodes_def Let_def split: sum.splits)
  next
    case 3
    with assms(2) show ?thesis
      by (auto simp add: createKeyboardControl_def createButton_def place_button_def
          overlay_nodes_def Let_def split: sum.splits)
  next
    case 4
    with assms(2) show ?thesis
      by (auto simp add: createSwitchControl_def createButton_def place_button_def
          overlay_nodes_def Let_def split: sum.splits)
  next
    case 5
    with assms(2) show ?thesis
      by (auto simp add: createScreenMoveControl_def createButton_def place_button_def
          overlay_nodes_def Let_def split: sum.splits)
  next
    case 6
    with assms(2) show ?thesis
      by (auto simp add: createPointerButtonControl_def createButton_def place_button_def
          overlay_nodes_def Let_def split: sum.splits)
  qed
qed

lemma factory_succeeds:
  assumes "map_of factoryMapping t = Some f" "cell_at g (row c) (column c) = Inr cl"
  shows "\<exists>u w'. f c g w = Inr (u, w')"
proof -
  from assms(1) have "(t, f) \<in> set factoryMapping" by (rule map_of_SomeD)
  then consider "f = createKeyControl" | "f = createOptionsControl"
    | "f = createKeyboardControl" | "f = createSwitchControl"
    | "f = createScreenMoveControl" | "f = createPointerButtonControl"
    by (auto simp add: factoryMapping_def)
  then show ?thesis
    using button_factories_succeed [OF assms(2), of w] by cases simp_all
qed

lemma get_factory_Own: "get_factory t = Own f \<longleftrightarrow> map_of factoryMapping t = Some f"
  by (auto simp add: get_factory_def split: option.splits)

lemma get_factory_Inherited: "get_factory t = Inherited n \<Longrightarrow> t \<in> set objectPrototype_properties"
  by (auto simp add: get_factory_def split: option.splits if_splits)

lemma get_factory_Undefined: "get_factory t = Undefined \<Longrightarrow> map_of factoryMapping t = None"
  by (auto simp add: get_factory_def split: option.splits if_splits)

lemma create_controls_post:
  assumes "no_inherited_type cs" "create_controls g cs w = (w', err)"
  shows "\<exists>new. unbindControls w' = unbindControls w @ new
      \<and> NotAFunction \<notin> set new
      \<and> next_node w \<le> next_node w'
      \<and> unbind_ids new = [next_node w ..< next_node w']
      \<and> overlay_nodes w' = overlay_nodes w @ unbind_nodes new
      \<and> length new \<le> length (known_controls cs)
      \<and> (err = None \<longrightarrow> length new = length (known_controls cs))"
  using assms
proof (induction cs arbitrary: w)
  case Nil
  then show ?case by (simp add: known_controls_def)
next
  case (Cons c cs)
  from Cons.prems(1) have ni: "type c \<notin> set objectPrototype_properties" "no_inherited_type cs"
    by (simp_all add: no_inherited_type_def)
  show ?case
  proof (cases "get_factory (type c)")
    case (Inherited n)
    with ni(1) show ?thesis using get_factory_Inherited by blast
  next
    case Undefined
    let ?w1 = "w \<lparr> console := console w @ [not_defined_message (type c)] \<rparr>"
    from Undefined Cons.prems(2) have r: "create_controls g cs ?w1 = (w', err)" by simp
    have k: "known_controls (c # cs) = known_controls cs"
      using get_factory_Undefined [OF Undefined] by (simp add: known_controls_def)
    from Cons.IH [OF ni(2) r] show ?thesis
      unfolding k by (simp add: overlay_nodes_def)
  next
    case (Own f)
    then have m: "map_of factoryMapping (type c) = Some f" by (simp add: get_factory_Own)
    have k: "known_controls (c # cs) = c # known_controls cs"
      using m by (simp add: known_controls_def)
    show ?thesis
    proof (cases "f c g w")
      case (Inl e)
      with Own Cons.prems(2) have "w' = w" "err = Some e" by simp_all
      then show ?thesis by simp
    next
      case (Inr p)
      obtain u w1 where p: "p = (u, w1)" by (cases p)
      let ?w2 = "w1 \<lparr> unbindControls := unbindControls w1 @ [u] \<rparr>"
      from Inr p have f: "f c g w = Inr (u, w1)" by simp
      from factory_post [OF m f] have fp: "unbindControls w1 = unbindControls w"
        "next_node w1 = Suc (next_node w)" "unbind_ids [u] = [next_node w]"
        "overlay_nodes w1 = overlay_nodes w @ unbind_nodes [u]" by simp_all
      from fp(3) have un: "u \<noteq> NotAFunction" by auto
      from Own f Cons.prems(2) have r: "create_controls g cs ?w2 = (w', err)" by simp
      from Cons.IH [OF ni(2) r] obtain new where new:
        "unbindControls w' = unbindControls ?w2 @ new"
        "NotAFunction \<notin> set new"
        "next_node ?w2 \<le> next_node w'"
        "unbind_ids new = [next_node ?w2 ..< next_node w']"
        "overlay_nodes w' = overlay_nodes ?w2 @ unbind_nodes new"
        "length new \<le> length (known_controls cs)"
        "err = None \<longrightarrow> length new = length (known_controls cs)"
        by blast
      have ov: "overlay_nodes ?w2 = overlay_nodes w1" by (simp add: overlay_nodes_def)
      have le: "Suc (next_node w) \<le> next_node w'" using new(3) fp(2) by simp
      have ids: "unbind_ids (u # new) = [next_node w ..< next_node w']"
        using new(4) fp(2,3) le unbind_ids_Cons [of u new] by (simp add: upt_conv_Cons)
      have nodes: "overlay_nodes w' = overlay_nodes w @ unbind_nodes (u # new)"
        using new(5) fp(4) ov unbind_nodes_Cons [of u new] by simp
      have "unbindControls w' = unbindControls w @ (u # new)"
        using new(1) fp(1) by simp
      moreover have "NotAFunction \<notin> set (u # new)" using un new(2) by auto
      moreover have "next_node w \<le> next_node w'" using le by simp
      moreover have "length (u # new) \<le> length (known_controls (c # cs))"
        using new(6) k by simp
      moreover have "err = None \<longrightarrow> length (u # new) = length (known_controls (c # cs))"
        using new(7) k by simp
      ultimately show ?thesis using ids nodes by blast
    qed
  qed
qed

lemma create_controls_no_error:
  assumes "no_inherited_type cs"
    "list_all (\<lambda>c. \<exists>cl. cell_at g (row c) (column c) = Inr cl) (known_controls cs)"
  shows "snd (create_controls g cs w) = None"
  using assms
proof (induction cs arbitrary: w)
  case Nil
  then show ?case by simp
next
  case (Cons c cs)
  from Cons.prems(1) have ni: "type c \<notin> set objectPrototype_properties" "no_inherited_type cs"
    by (simp_all add: no_inherited_type_def)
  show ?case
  proof (cases "get_factory (type c)")
    case (Inherited n)
    with ni(1) show ?thesis using get_factory_Inherited by blast
  next
    case Undefined
    have k: "known_controls (c # cs) = known_controls cs"
      using get_factory_Undefined [OF Undefined] by (simp add: known_controls_def)
    from Cons.IH [OF ni(2)] Cons.prems(2) show ?thesis
      unfolding k using Undefined by simp
  next
    case (Own f)
    then have m: "map_of factoryMapping (type c) = Some f" by (simp add: get_factory_Own)
    have k: "known_controls (c # cs) = c # known_controls cs"
      using m by (simp add: known_controls_def)
    from Cons.prems(2) obtain cl where cl: "cell_at g (row c) (column c) = Inr cl"
      and rest: "list_all (\<lambda>c. \<exists>cl. cell_at g (row c) (column c) = Inr cl) (known_controls cs)"
      unfolding k by auto
    from factory_succeeds [OF m cl, of w] obtain u w1 where f: "f c g w = Inr (u, w1)" by blast
    from Cons.IH [OF ni(2) rest] show ?thesis using Own f by simp
  qed
qed

text \<open>
  From a state that satisfies the invariant, and for a layer none of whose control types
  names an inherited property, a resize calls every registered unbind function, empties
  the list and registers one new unbind function for each control it creates.
\<close>

lemma onResize_post:
  assumes inv: "controls_inv w" and ni: "no_inherited_type (controls lc)"
    and r: "onResize getConfiguration (Some lc) width height w = (w', err)"
  shows "NotAFunction \<notin> set (unbindControls w')
       \<and> unbind_ids (unbindControls w') = [next_node w ..< next_node w']
       \<and> (\<forall>u \<in> set (unbindControls w). u \<notin> set (unbindControls w'))
       \<and> overlay_nodes w' =
           filter (\<lambda>n. n \<notin> set (unbind_nodes (unbindControls w))) (overlay_nodes w)
           @ unbind_nodes (unbindControls w')
       \<and> length (unbindControls w') \<le> length (known_controls (controls lc))
       \<and> (err = None \<longrightarrow> length (unbindControls w') = length (known_controls (controls lc)))
       \<and> (\<forall>g. getConfiguration (grid lc) width height = Inr g
              \<and> list_all (\<lambda>c. \<exists>cl. cell_at g (row c) (column c) = Inr cl)
                   (known_controls (controls lc))
            \<longrightarrow> err = None)
       \<and> controls_inv w'"
proof -
  let ?old = "unbindControls w"
  let ?kept = "filter (\<lambda>n. n \<notin> set (unbind_nodes ?old)) (overlay_nodes w)"
  from inv have i: "NotAFunction \<notin> set ?old" "distinct (unbind_nodes ?old)"
    "set (unbind_nodes ?old) \<subseteq> set (overlay_nodes w)"
    "\<forall>n \<in> set (unbind_ids ?old). n < next_node w"
    "\<forall>n \<in> set (overlay_nodes w). n < next_node w"
    by (simp_all add: controls_inv_def list_all_iff)
  from unbind_all_ok [OF i(1,2,3)] obtain w1 where w1: "unbind_all ?old w = (w1, None)"
    "overlay_nodes w1 = ?kept" "next_node w1 = next_node w" "unbindControls w1 = ?old"
    by blast
  let ?w2 = "w1 \<lparr> unbindControls := [] \<rparr>"
  have w2: "overlay_nodes ?w2 = ?kept" "next_node ?w2 = next_node w" "unbindControls ?w2 = []"
    using w1 by (simp_all add: overlay_nodes_def)
  have kept_lt: "\<forall>n \<in> set ?kept. n < next_node w" using i(5) by simp
  have main: "\<exists>new. unbindControls w' = new
      \<and> NotAFunction \<notin> set new
      \<and> next_node w \<le> next_node w'
      \<and> unbind_ids new = [next_node w ..< next_node w']
      \<and> overlay_nodes w' = ?kept @ unbind_nodes new
      \<and> length new \<le> length (known_controls (controls lc))
      \<and> (err = None \<longrightarrow> length new = length (known_controls (controls lc)))
      \<and> (\<forall>g. getConfiguration (grid lc) width height = Inr g
              \<and> list_all (\<lambda>c. \<exists>cl. cell_at g (row c) (column c) = Inr cl)
                   (known_controls (controls lc))
            \<longrightarrow> err = None)"
  proof (cases "getConfiguration (grid lc) width height")
    case (Inl e)
    with r w1(1) have "w' = ?w2" "err = Some e" by (simp_all add: onResize_def)
    then show ?thesis using w2 Inl by simp
  next
    case (Inr g)
    with r w1(1) have c: "create_controls g (controls lc) ?w2 = (w', err)"
      by (simp add: onResize_def)
    from create_controls_post [OF ni c] obtain new where new:
      "unbindControls w' = unbindControls ?w2 @ new"
      "NotAFunction \<notin> set new"
      "next_node ?w2 \<le> next_node w'"
      "unbind_ids new = [next_node ?w2 ..< next_node w']"
      "overlay_nodes w' = overlay_nodes ?w2 @ unbind_nodes new"
      "length new \<le> length (known_controls (controls lc))"
      "err = None \<longrightarrow> length new = length (known_controls (controls lc))"
      by blast
    have ne: "list_all (\<lambda>c. \<exists>cl. cell_at g (row c) (column c) = Inr cl)
                (known_controls (controls lc)) \<longrightarrow> err = None"
      using create_controls_no_error [OF ni, of g ?w2] c by auto
    show ?thesis using new ne Inr unfolding w2 by auto
  qed
  then obtain new where new: "unbindControls w' = new"
      "NotAFunction \<notin> set new"
      "next_node w \<le> next_node w'"
      "unbind_ids new = [next_node w ..< next_node w']"
      "overlay_nodes w' = ?kept @ unbind_nodes new"
      "length new \<le> length (known_controls (controls lc))"
      "err = None \<longrightarrow> length new = length (known_controls (controls lc))"
      "\<forall>g. getConfiguration (grid lc) width height = Inr g
              \<and> list_all (\<lambda>c. \<exists>cl. cell_at g (row c) (column c) = Inr cl)
                   (known_controls (controls lc))
            \<longrightarrow> err = None"
    by blast
  have gone: "\<forall>u \<in> set ?old. u \<notin> set new"
  proof
    fix u assume u: "u \<in> set ?old"
    with i(1) have nf: "u \<noteq> NotAFunction" by auto
    from unbind_member_id [OF u nf] obtain n where
      n: "n \<in> set (unbind_ids ?old)" "unbind_ids [u] = [n]" by blast
    show "u \<notin> set new"
    proof
      assume "u \<in> set new"
      from unbind_member_id [OF this nf] obtain m where
        m: "m \<in> set (unbind_ids new)" "unbind_ids [u] = [m]" by blast
      from n(2) m(2) have "m = n" by simp
      with m(1) new(4) have "next_node w \<le> n" by simp
      with n(1) i(4) show False by auto
    qed
  qed
  have d: "distinct (unbind_nodes new)"
    by (rule unbind_nodes_distinct) (simp add: new(4))
  have ids_lt: "\<forall>n \<in> set (unbind_ids new). n < next_node w'" using new(4) by simp
  have nodes_lt: "\<forall>n \<in> set (unbind_nodes new). n < next_node w'"
    using ids_lt unbind_nodes_subset_ids [of new] by auto
  have inv': "controls_inv w'"
    unfolding controls_inv_def list_all_iff new(1) new(5)
    using new(2) d ids_lt nodes_lt kept_lt new(3) by auto
  show ?thesis using new gone inv' by simp
qed

text \<open>The invariant is kept by every handler and established by \<^verbatim>\<open>initLayerConfig\<close>.\<close>

lemma run_handler_inv: "controls_inv w \<Longrightarrow> controls_inv (run_handler h w)"
  by (cases h) (simp_all add: controls_inv_def overlay_nodes_def)

lemma initLayerConfig_inv:
  assumes "list_all (\<lambda>n. n < next_node w) (overlay_nodes w)"
    "no_inherited_type (controls lc)"
  shows "controls_inv (fst (initLayerConfig getConfiguration (Some lc) self w))"
proof -
  let ?w0 = "w \<lparr> keyboard_bound := True, mouse_bound := True, unbindControls := [],
                w_layers := addOnResize (ControlsOnResize self) (w_layers w) \<rparr>"
  have i0: "controls_inv ?w0"
    using assms(1) by (simp add: controls_inv_def overlay_nodes_def addOnResize_def)
  obtain w' err where r: "onResize getConfiguration (Some lc)
      (layers_width (w_layers ?w0)) (layers_height (w_layers ?w0)) ?w0 = (w', err)"
    by (cases "onResize getConfiguration (Some lc)
      (layers_width (w_layers ?w0)) (layers_height (w_layers ?w0)) ?w0")
  from onResize_post [OF i0 assms(2) r] have "controls_inv w'" by simp
  moreover have "initLayerConfig getConfiguration (Some lc) self w = (w', err)"
    using r by (simp add: initLayerConfig_def Let_def)
  ultimately show ?thesis by simp
qed

text \<open>
  When the first registered value is not a function, the resize handler throws at its
  first call and changes nothing: the list is not emptied and no unbind function runs.
\<close>

lemma onResize_not_a_function:
  assumes "unbindControls w = NotAFunction # us"
  shows "onResize getConfiguration layerConfig width height w = (w, Some TypeError)"
  using assms by (simp add: onResize_def)

lemma example_inherited_init:
  "snd (initLayerConfig example_getConfiguration (Some example_layerConfig_inherited) 1
          example_world) = None"
  "unbindControls (fst (initLayerConfig example_getConfiguration
      (Some example_layerConfig_inherited) 1 example_world)) = [NotAFunction, RemoveButton 0]"
  "overlay_nodes (fst (initLayerConfig example_getConfiguration
      (Some example_layerConfig_inherited) 1 example_world)) = [0]"
  "console (fst (initLayerConfig example_getConfiguration
      (Some example_layerConfig_inherited) 1 example_world)) = []"
  by (simp_all add: initLayerConfig_def onResize_def Let_def example_getConfiguration_def
      example_layerConfig_inherited_def get_factory_cases objectPrototype_properties_def
      call_inherited_def createKeyControl_def cell_at_def example_control_def
      example_grid_def example_world_def example_layers_def addOnResize_def
      createButton_def place_button_def overlay_nodes_def)

text \<open>
  Claim C6 on the code, for a layer whose controls are one of type \<^verbatim>\<open>toString\<close>
  followed by a Key control. The first \<^verbatim>\<open>onResize\<close>, run by \<^verbatim>\<open>initLayerConfig\<close>,
  leaves a value that is not a function in \<^verbatim>\<open>unbindControls\<close>, next to the unbind
  function of the Key button. The next resize event throws a \<^verbatim>\<open>TypeError\<close> when it
  calls that value: the list is not emptied, the unbind function of the earlier layout
  is not invoked (its button stays in the overlay) and survives the resize, and no
  control is created from the new grid configuration.
\<close>

theorem inherited_type_unbind_survives_resize:
  "snd (initLayerConfig example_getConfiguration (Some example_layerConfig_inherited) 1
          example_world) = None
   \<and> unbindControls (fst (initLayerConfig example_getConfiguration
        (Some example_layerConfig_inherited) 1 example_world))
       = [NotAFunction, RemoveButton 0]
   \<and> overlay_nodes (fst (initLayerConfig example_getConfiguration
        (Some example_layerConfig_inherited) 1 example_world)) = [0]
   \<and> snd (onResize example_getConfiguration (Some example_layerConfig_inherited) 640 480
        (fst (initLayerConfig example_getConfiguration
           (Some example_layerConfig_inherited) 1 example_world))) = Some TypeError
   \<and> unbindControls (fst (onResize example_getConfiguration
        (Some example_layerConfig_inherited) 640 480
        (fst (initLayerConfig example_getConfiguration
           (Some example_layerConfig_inherited) 1 example_world))))
       = [NotAFunction, RemoveButton 0]
   \<and> overlay_nodes (fst (onResize example_getConfiguration
        (Some example_layerConfig_inherited) 640 480
        (fst (initLayerConfig example_getConfiguration
           (Some example_layerConfig_inherited) 1 example_world)))) = [0]"
  using example_inherited_init(1,2,3)
    onResize_not_a_function [OF example_inherited_init(2), of example_getConfiguration
      "Some example_layerConfig_inherited" 640 480]
  by simp

end
